theory Spec2Isabelle
  imports Main "HOL-Library.Word"
begin

section \<open>Go values used by the client\<close>

text \<open>
  The repository holds two versions of the client: \<^verbatim>\<open>src/caller.go\<close> and
  \<^verbatim>\<open>src/unnamed/part_000\<close>. Both are embedded. Where both declare a function of the
  same name, the one of \<^verbatim>\<open>part_000\<close> carries the suffix \<open>_part0\<close>.

  Go strings and byte slices are byte sequences: \<^typ>\<open>string\<close>. Go's \<^verbatim>\<open>int\<close> is taken at
  64 bits (as on amd64 and arm64), so \<^verbatim>\<open>int\<close> and \<^verbatim>\<open>int64\<close> are both
  \<^typ>\<open>64 word\<close>, read as signed by \<^const>\<open>sint\<close>; subtraction and addition wrap around.
  HTTP status codes and the integers of JSON texts are \<^typ>\<open>int\<close>.
\<close>

type_synonym int64 = "64 word"

subsection \<open>strconv.FormatInt(n, 10) and the verb %d\<close>

fun digits :: "nat \<Rightarrow> string" where
  "digits n =
     (if n < 10 then [''0123456789'' ! n]
      else digits (n div 10) @ [''0123456789'' ! (n mod 10)])"

declare digits.simps [simp del]

definition FormatInt :: "int \<Rightarrow> string" where
  "FormatInt i = (if i < 0 then CHR ''-'' # digits (nat (- i)) else digits (nat i))"

subsection \<open>fmt.Sprintf, for the verbs the source uses\<close>

text \<open>
  An argument of \<^verbatim>\<open>Sprintf\<close> is a string or byte slice (printed by \<^verbatim>\<open>%s\<close>) or an
  integer (printed by \<^verbatim>\<open>%d\<close>). Every call of the source gives each verb an argument
  of its kind; the diagnostics that Go prints for a verb without a fitting argument are
  not modelled (the verb is then copied).
\<close>

datatype fmtarg = ArgS string | ArgD int

fun Sprintf :: "string \<Rightarrow> fmtarg list \<Rightarrow> string" where
  "Sprintf [] args = []"
| "Sprintf [c] args = [c]"
| "Sprintf (c # v # fmt) args =
     (if c = CHR ''%'' \<and> v = CHR ''s'' then
        (case args of
           ArgS s # rest \<Rightarrow> s @ Sprintf fmt rest
         | _ \<Rightarrow> c # v # Sprintf fmt args)
      else if c = CHR ''%'' \<and> v = CHR ''d'' then
        (case args of
           ArgD n # rest \<Rightarrow> FormatInt n @ Sprintf fmt rest
         | _ \<Rightarrow> c # v # Sprintf fmt args)
      else c # Sprintf (v # fmt) args)"

subsection \<open>strings.Join\<close>

fun Join :: "string list \<Rightarrow> string \<Rightarrow> string" where
  "Join [] sep = []"
| "Join [s] sep = s"
| "Join (s # t # ss) sep = s @ sep @ Join (t # ss) sep"

subsection \<open>hex.EncodeToString\<close>

definition hextable :: string where
  "hextable = ''0123456789abcdef''"

definition hex_EncodeToString :: "string \<Rightarrow> string" where
  "hex_EncodeToString src =
     concat (map (\<lambda>b. [hextable ! (of_char b div 16), hextable ! (of_char b mod 16)]) src)"

subsection \<open>Errors\<close>

text \<open>\<^verbatim>\<open>type ApiOvhError struct\<close> (the same in both versions).\<close>

record ApiOvhError =
  Message :: string
  Code :: int
  Tracer :: string

text \<open>
  Modelled from the spec: \<^verbatim>\<open>NewError\<close>, which \<^verbatim>\<open>caller.go\<close> calls and no source file
  declares. The specification calls it a custom error wrapping constructor: its value
  is an error (never \<^verbatim>\<open>nil\<close>) that carries the message and the code it is given. It
  is the constructor \<open>NewError\<close> below.
\<close>

datatype error =
    ErrorString string
  | NumError string
  | LibError string
  | NewError string int
  | ApiError ApiOvhError

text \<open>
  The error values of the client:
  \<^item> \<open>ErrorString m\<close>: \<^verbatim>\<open>errors.New(m)\<close> and \<^verbatim>\<open>fmt.Errorf\<close> with the message \<open>m\<close>;
  \<^item> \<open>NumError s\<close>: the \<^verbatim>\<open>*strconv.NumError\<close> of \<^verbatim>\<open>strconv.Atoi(s)\<close> (its
    \<^verbatim>\<open>Err\<close> is \<^verbatim>\<open>ErrSyntax\<close> or \<^verbatim>\<open>ErrRange\<close>);
  \<^item> \<open>LibError m\<close>: an error returned by \<^verbatim>\<open>encoding/json\<close>, \<^verbatim>\<open>net/http\<close> or
    \<^verbatim>\<open>io/ioutil\<close>, passed on as it is; \<open>m\<close> is its message;
  \<^item> \<open>NewError m code\<close>: the value of \<^verbatim>\<open>NewError(m, code)\<close> in \<^verbatim>\<open>caller.go\<close>;
  \<^item> \<open>ApiError e\<close>: the \<^verbatim>\<open>*ApiOvhError\<close> pointing to \<open>e\<close>.
\<close>

subsection \<open>strconv.Atoi\<close>

definition is_digit :: "char \<Rightarrow> bool" where
  "is_digit c = (c \<in> set ''0123456789'')"

definition digit_val :: "char \<Rightarrow> nat" where
  "digit_val c = (of_char c :: nat) - 48"

definition parse_digits :: "string \<Rightarrow> nat" where
  "parse_digits s = foldl (\<lambda>n c. 10 * n + digit_val c) 0 s"

text \<open>
  \<open>decimal s\<close> is the integer that \<open>s\<close> denotes in base 10: an optional sign and at least
  one digit, nothing else. \<^verbatim>\<open>strconv.Atoi\<close> fails on any other string
  (\<^verbatim>\<open>ErrSyntax\<close>) and on an integer outside the range of \<^verbatim>\<open>int\<close> (\<^verbatim>\<open>ErrRange\<close>).
\<close>

definition decimal :: "string \<Rightarrow> int option" where
  "decimal s =
     (let ds = (if s \<noteq> [] \<and> (hd s = CHR ''-'' \<or> hd s = CHR ''+'') then tl s else s)
      in if ds = [] \<or> \<not> list_all is_digit ds then None
         else if hd s = CHR ''-'' then Some (- int (parse_digits ds))
         else Some (int (parse_digits ds)))"

definition Atoi :: "string \<Rightarrow> error + int64" where
  "Atoi s =
     (case decimal s of
        None \<Rightarrow> Inl (NumError s)
      | Some n \<Rightarrow>
          (if - (2 ^ 63) \<le> n \<and> n < 2 ^ 63 then Inr (word_of_int n) else Inl (NumError s)))"

subsection \<open>package time, as far as part\_000 uses it\<close>

text \<open>
  A \<^verbatim>\<open>time.Time\<close> is its wall-clock instant in nanoseconds since the Unix epoch;
  a \<^verbatim>\<open>time.Duration\<close> is an \<^verbatim>\<open>int64\<close> of nanoseconds. \<^verbatim>\<open>Sub\<close> saturates at
  the least and the greatest duration, as Go's does.
\<close>

type_synonym time_Time = int

definition time_Unix :: "int64 \<Rightarrow> time_Time" where
  "time_Unix sec = sint sec * 1000000000"

definition Sub :: "time_Time \<Rightarrow> time_Time \<Rightarrow> int64" where
  "Sub t u =
     (if t - u < - (2 ^ 63) then word_of_int (- (2 ^ 63))
      else if 2 ^ 63 - 1 < t - u then word_of_int (2 ^ 63 - 1)
      else word_of_int (t - u))"

definition Since :: "time_Time \<Rightarrow> time_Time \<Rightarrow> int64" where
  "Since now t = Sub now t"

definition Add :: "time_Time \<Rightarrow> int64 \<Rightarrow> time_Time" where
  "Add t d = t + sint d"

definition Unix :: "time_Time \<Rightarrow> int64" where
  "Unix t = word_of_int (t div 1000000000)"

subsection \<open>encoding/json: decoding into the structs of the client\<close>

text \<open>
  A JSON text that is syntactically valid, as a tree. Numbers with a fraction or an
  exponent keep their literal.
\<close>

datatype json =
    JNull
  | JBool bool
  | JInt int
  | JFloat string
  | JStr string
  | JArr "json list"
  | JObj "(string \<times> json) list"

definition toLower :: "char \<Rightarrow> char" where
  "toLower c =
     (case map_of (zip ''ABCDEFGHIJKLMNOPQRSTUVWXYZ'' ''abcdefghijklmnopqrstuvwxyz'') c of
        Some l \<Rightarrow> l
      | None \<Rightarrow> c)"

definition toUpper :: "char \<Rightarrow> char" where
  "toUpper c =
     (case map_of (zip ''abcdefghijklmnopqrstuvwxyz'' ''ABCDEFGHIJKLMNOPQRSTUVWXYZ'') c of
        Some u \<Rightarrow> u
      | None \<Rightarrow> c)"

text \<open>
  A key of a JSON object names a field when the two are equal up to the case of ASCII
  letters (the two non-ASCII letters that Go folds onto \<open>k\<close> and \<open>s\<close> are left out).
\<close>

definition EqualFold :: "string \<Rightarrow> string \<Rightarrow> bool" where
  "EqualFold s t = (map toLower s = map toLower t)"

text \<open>
  Storing a JSON value into a field: \<open>null\<close> leaves the field as it is, a value of
  another kind is an \<^verbatim>\<open>UnmarshalTypeError\<close> (here: its message) and leaves the field
  as it is. The first error is kept and decoding goes on.
\<close>

definition into_string :: "json \<Rightarrow> string \<Rightarrow> string option \<times> string" where
  "into_string j old =
     (case j of
        JStr s \<Rightarrow> (None, s)
      | JNull \<Rightarrow> (None, old)
      | _ \<Rightarrow> (Some ''json: cannot unmarshal into Go value of type string'', old))"

definition into_int :: "json \<Rightarrow> int \<Rightarrow> string option \<times> int" where
  "into_int j old =
     (case j of
        JInt n \<Rightarrow>
          (if - (2 ^ 63) \<le> n \<and> n < 2 ^ 63 then (None, n)
           else (Some ''json: cannot unmarshal number into Go value of type int'', old))
      | JNull \<Rightarrow> (None, old)
      | _ \<Rightarrow> (Some ''json: cannot unmarshal into Go value of type int'', old))"

type_synonym 'a setter = "string \<Rightarrow> json \<Rightarrow> 'a \<Rightarrow> string option \<times> 'a"

fun decode_object :: "'a setter \<Rightarrow> (string \<times> json) list \<Rightarrow> 'a \<Rightarrow> string option \<times> 'a" where
  "decode_object set_field [] x = (None, x)"
| "decode_object set_field ((k, v) # kvs) x =
     (case set_field k v x of
        (e, x') \<Rightarrow>
          (case decode_object set_field kvs x' of
             (e', x'') \<Rightarrow> ((case e of None \<Rightarrow> e' | Some m \<Rightarrow> Some m), x'')))"

definition decode_struct :: "'a setter \<Rightarrow> json \<Rightarrow> 'a \<Rightarrow> string option \<times> 'a" where
  "decode_struct set_field j x =
     (case j of
        JObj kvs \<Rightarrow> decode_object set_field kvs x
      | JNull \<Rightarrow> (None, x)
      | _ \<Rightarrow> (Some ''json: cannot unmarshal into Go value of struct type'', x))"

text \<open>
  \<^verbatim>\<open>json.Unmarshal(data, &x)\<close>: a syntax error leaves \<open>x\<close> untouched. The scanner is
  the library's: \<open>parse\<close> gives the tree of a valid text and the message of the
  \<^verbatim>\<open>SyntaxError\<close> of any other.
\<close>

definition json_Unmarshal ::
  "(string \<Rightarrow> string + json) \<Rightarrow> (json \<Rightarrow> 'a \<Rightarrow> string option \<times> 'a) \<Rightarrow> string \<Rightarrow> 'a
     \<Rightarrow> string option \<times> 'a" where
  "json_Unmarshal parse decode data x =
     (case parse data of
        Inl m \<Rightarrow> (Some m, x)
      | Inr j \<Rightarrow> decode j x)"

subsection \<open>net/http: requests, responses, headers\<close>

definition validHeaderFieldByte :: "char \<Rightarrow> bool" where
  "validHeaderFieldByte c =
     (c \<in> set ''abcdefghijklmnopqrstuvwxyzABCDEFGHIJKLMNOPQRSTUVWXYZ0123456789!#$%&*+-.^_`|~''
      \<or> c = CHR 0x27)"

fun canonical :: "bool \<Rightarrow> string \<Rightarrow> string" where
  "canonical upper [] = []"
| "canonical upper (c # cs) =
     (let c' = (if upper then toUpper c else toLower c)
      in c' # canonical (c' = CHR ''-'') cs)"

definition CanonicalMIMEHeaderKey :: "string \<Rightarrow> string" where
  "CanonicalMIMEHeaderKey s = (if list_all validHeaderFieldByte s then canonical True s else s)"

type_synonym Header = "string \<Rightarrow> string list"

definition no_header :: Header where
  "no_header = (\<lambda>k. [])"

definition Header_Add :: "string \<Rightarrow> string \<Rightarrow> Header \<Rightarrow> Header" where
  "Header_Add key v h =
     h (CanonicalMIMEHeaderKey key := h (CanonicalMIMEHeaderKey key) @ [v])"

record Request =
  req_Method :: string
  req_URL :: string
  req_Header :: Header
  req_Body :: string

text \<open>
  A response as the client reads it: the status code, and what \<^verbatim>\<open>ioutil.ReadAll\<close>
  gives for the body (the bytes, or the message of the read error).
\<close>

record Response =
  StatusCode :: int
  Body :: "string + string"

section \<open>The session\<close>

text \<open>
  \<^verbatim>\<open>type Caller struct\<close>. \<^verbatim>\<open>part_000\<close> names the fourth field \<^verbatim>\<open>URL\<close> and
  types \<^verbatim>\<open>delay\<close> as \<^verbatim>\<open>time.Duration\<close>, an \<^verbatim>\<open>int64\<close> of nanoseconds;
  \<^verbatim>\<open>caller.go\<close> keeps whole seconds in an \<^verbatim>\<open>int\<close>. One record serves both.
\<close>

record Caller =
  ApplicationKey :: string
  ApplicationSecret :: string
  ConsumerKey :: string
  Url :: string
  delay :: int64

text \<open>
  What an operation does: the value the Go function returns, the \<^verbatim>\<open>Caller\<close> behind
  the receiver pointer when it returns, and the requests it handed to the transport.
\<close>

record 'a ret =
  returned :: 'a
  session :: Caller
  sent :: "Request list"

section \<open>The collaborators\<close>

text \<open>
  What the client calls and does not own: the digest, the JSON encoder of a request body
  of type \<open>'b\<close>, the JSON scanner, the JSON decoder of a response shape of type \<open>'r\<close>,
  the validation of \<^verbatim>\<open>http.NewRequest\<close> (the message of its error for a method or URL
  it refuses) and the transport \<^verbatim>\<open>http.DefaultClient.Do\<close>. A failure of a library
  call is the message of its error (\<open>Inl\<close>, or \<open>Some\<close>).

  The decoder of a response shape comes twice. \<open>json_decode\<close> decodes into a shape from
  which nothing of the session can be reached: it gives the new content of the shape.
  \<open>json_decode_shared\<close> decodes into a shape from which the session can be reached (the
  shape holds the pointer to the \<^verbatim>\<open>Caller\<close> or a pointer to one of its fields, or a
  decoding method of the shape does): it is given the session too, and gives the new
  content of the shape and of the session.
\<close>

record ('b, 'r) world =
  sha1_Sum :: "string \<Rightarrow> string"
  json_Marshal :: "'b \<Rightarrow> string + string"
  json_parse :: "string \<Rightarrow> string + json"
  json_decode :: "json \<Rightarrow> 'r \<Rightarrow> string option \<times> 'r"
  json_decode_shared :: "json \<Rightarrow> 'r \<Rightarrow> Caller \<Rightarrow> string option \<times> 'r \<times> Caller"
  strconv_Quote :: "string \<Rightarrow> string"
  http_NewRequest :: "string \<Rightarrow> string \<Rightarrow> string option"
  http_Do :: "Request \<Rightarrow> string + Response"

text \<open>
  \<^verbatim>\<open>result, err := http.DefaultClient.Do(request)\<close> and
  \<^verbatim>\<open>body, err := ioutil.ReadAll(result.Body)\<close>, which every operation runs in this
  order: the status code and the body, or the message of the first error.
\<close>

definition Do_ReadAll :: "('b, 'r) world \<Rightarrow> Request \<Rightarrow> string + (int \<times> string)" where
  "Do_ReadAll w request =
     (case http_Do w request of
        Inl m \<Rightarrow> Inl m
      | Inr result \<Rightarrow>
          (case Body result of
             Inl m \<Rightarrow> Inl m
           | Inr body \<Rightarrow> Inr (StatusCode result, body)))"

section \<open>The signature\<close>

text \<open>
  \<^verbatim>\<open>crypto/sha1\<close> is a library: the digest function (\<^verbatim>\<open>sha1.New\<close>,
  \<^verbatim>\<open>io.WriteString\<close>, \<^verbatim>\<open>h.Sum(nil)\<close>) is a parameter \<open>digest\<close> from the
  bytes written to the 20 bytes of the digest.

  \<open>sig\<close> is the local variable \<^verbatim>\<open>sig\<close> of \<^verbatim>\<open>getSignature\<close>: the string that is hashed.
\<close>

definition sig :: "Caller \<Rightarrow> string \<Rightarrow> string \<Rightarrow> string \<Rightarrow> int64 \<Rightarrow> string" where
  "sig caller method url body apiTime =
     Sprintf ''%s+%s+%s+%s+%s+%d''
       [ArgS (ApplicationSecret caller), ArgS (ConsumerKey caller), ArgS method, ArgS url,
        ArgS body, ArgD (sint apiTime)]"

definition getSignature ::
  "(string \<Rightarrow> string) \<Rightarrow> Caller \<Rightarrow> string \<Rightarrow> string \<Rightarrow> string \<Rightarrow> int64 \<Rightarrow> string" where
  "getSignature digest caller method url body apiTime =
     ''$1$'' @ hex_EncodeToString (digest (sig caller method url body apiTime))"

definition sig_part0 :: "Caller \<Rightarrow> string \<Rightarrow> string \<Rightarrow> string \<Rightarrow> int64 \<Rightarrow> string" where
  "sig_part0 caller method url body timestamp =
     Join [ApplicationSecret caller, ConsumerKey caller, method, url, body,
           FormatInt (sint timestamp)] ''+''"

definition getSignature_part0 ::
  "(string \<Rightarrow> string) \<Rightarrow> Caller \<Rightarrow> string \<Rightarrow> string \<Rightarrow> string \<Rightarrow> int64 \<Rightarrow> string" where
  "getSignature_part0 digest caller method url body timestamp =
     ''$1$'' @ hex_EncodeToString (digest (sig_part0 caller method url body timestamp))"

section \<open>src/caller.go\<close>

definition ApiUrl :: "string \<rightharpoonup> string" where
  "ApiUrl =
     [''ovh-eu'' \<mapsto> ''https://api.ovh.com/1.0'',
      ''ovh-ca'' \<mapsto> ''https://ca.api.ovh.com/1.0'',
      ''runabove'' \<mapsto> ''https://api.runabove.com/1.0'']"

text \<open>\<^verbatim>\<open>func (caller *Caller) Time() (int, error)\<close>\<close>

definition Time :: "('b, 'r) world \<Rightarrow> Caller \<Rightarrow> (error + int64) ret" where
  "Time w caller =
     (case http_NewRequest w ''GET'' (Sprintf ''%s/auth/time'' [ArgS (Url caller)]) of
        Some m \<Rightarrow> \<lparr>returned = Inl (LibError m), session = caller, sent = []\<rparr>
      | None \<Rightarrow>
          (let request =
                 \<lparr>req_Method = ''GET'',
                  req_URL = Sprintf ''%s/auth/time'' [ArgS (Url caller)],
                  req_Header = no_header,
                  req_Body = []\<rparr>
           in \<lparr>returned =
                  (case Do_ReadAll w request of
                     Inl m \<Rightarrow> Inl (LibError m)
                   | Inr (status, body) \<Rightarrow>
                       (if status \<noteq> 200 then
                          Inl (ErrorString
                                 (Sprintf ''API seems down, HTTP response: %d'' [ArgD status]))
                        else Atoi (Sprintf ''%s'' [ArgS body]))),
                session = caller,
                sent = [request]\<rparr>))"

text \<open>
  \<^verbatim>\<open>func NewCaller(endpoint, applicationKey, applicationSecret, consumerKey string)\<close>.
  \<open>currentTime\<close> is what \<^verbatim>\<open>time.Now().Unix()\<close> gives on line 57, before the request
  of \<^verbatim>\<open>Time\<close> is made. The table \<^verbatim>\<open>ApiUrl\<close> is read as declared.
\<close>

definition NewCaller ::
  "('b, 'r) world \<Rightarrow> int64 \<Rightarrow> string \<Rightarrow> string \<Rightarrow> string \<Rightarrow> string \<Rightarrow> error + Caller" where
  "NewCaller w currentTime endpoint applicationKey applicationSecret consumerKey =
     (let url = (case ApiUrl endpoint of None \<Rightarrow> [] | Some u \<Rightarrow> u)
      in if url = [] then Inl (ErrorString (Sprintf ''Invalid endpoint %s'' [ArgS endpoint]))
         else
           (let caller =
                  \<lparr>ApplicationKey = applicationKey,
                   ApplicationSecret = applicationSecret,
                   ConsumerKey = consumerKey,
                   Url = url,
                   delay = 0\<rparr>
            in case returned (Time w caller) of
                 Inl err \<Rightarrow> Inl err
               | Inr ovhTime \<Rightarrow> Inr (caller\<lparr>delay := ovhTime - currentTime\<rparr>)))"

text \<open>\<^verbatim>\<open>func (caller *Caller) Ping() error\<close>\<close>

definition Ping :: "('b, 'r) world \<Rightarrow> Caller \<Rightarrow> error option ret" where
  "Ping w caller =
     (let t = Time w caller
      in \<lparr>returned = (case returned t of Inl err \<Rightarrow> Some err | Inr _ \<Rightarrow> None),
          session = session t,
          sent = sent t\<rparr>)"

text \<open>
  \<^verbatim>\<open>type GetCKResponse struct\<close>, \<^verbatim>\<open>type AccessRule struct\<close> and
  \<^verbatim>\<open>type GetCKParams struct\<close>. A slice may be \<^verbatim>\<open>nil\<close>, and so may each rule
  pointer in it.
\<close>

record GetCKResponse =
  ck_ConsumerKey :: string
  Status :: string
  ValidationUrl :: string

record AccessRule =
  Method :: string
  Path :: string

record GetCKParams =
  AccessRules :: "AccessRule option list option"
  Redirection :: string

text \<open>
  The fields a JSON key sets. In \<^verbatim>\<open>caller.go\<close> the fields of \<^verbatim>\<open>GetCKResponse\<close>
  have no tag, so a key is matched with the name of the field.
\<close>

definition field_string ::
  "('a \<Rightarrow> string) \<Rightarrow> (string \<Rightarrow> 'a \<Rightarrow> 'a) \<Rightarrow> json \<Rightarrow> 'a \<Rightarrow> string option \<times> 'a" where
  "field_string get put v x = (case into_string v (get x) of (e, s) \<Rightarrow> (e, put s x))"

definition field_int ::
  "('a \<Rightarrow> int) \<Rightarrow> (int \<Rightarrow> 'a \<Rightarrow> 'a) \<Rightarrow> json \<Rightarrow> 'a \<Rightarrow> string option \<times> 'a" where
  "field_int get put v x = (case into_int v (get x) of (e, n) \<Rightarrow> (e, put n x))"

definition ApiOvhError_set :: "ApiOvhError setter" where
  "ApiOvhError_set k v x =
     (if EqualFold k ''Message'' then field_string Message (\<lambda>s x. x\<lparr>Message := s\<rparr>) v x
      else if EqualFold k ''Code'' then field_int Code (\<lambda>n x. x\<lparr>Code := n\<rparr>) v x
      else if EqualFold k ''Tracer'' then field_string Tracer (\<lambda>s x. x\<lparr>Tracer := s\<rparr>) v x
      else (None, x))"

definition GetCKResponse_set :: "GetCKResponse setter" where
  "GetCKResponse_set k v x =
     (if EqualFold k ''ConsumerKey'' then
        field_string ck_ConsumerKey (\<lambda>s x. x\<lparr>ck_ConsumerKey := s\<rparr>) v x
      else if EqualFold k ''Status'' then field_string Status (\<lambda>s x. x\<lparr>Status := s\<rparr>) v x
      else if EqualFold k ''ValidationUrl'' then
        field_string ValidationUrl (\<lambda>s x. x\<lparr>ValidationUrl := s\<rparr>) v x
      else (None, x))"

text \<open>
  The exported fields of \<^verbatim>\<open>Caller\<close>; \<^verbatim>\<open>delay\<close> is not exported, so no key sets it.
\<close>

definition Caller_set :: "Caller setter" where
  "Caller_set k v x =
     (if EqualFold k ''ApplicationKey'' then
        field_string ApplicationKey (\<lambda>s x. x\<lparr>ApplicationKey := s\<rparr>) v x
      else if EqualFold k ''ApplicationSecret'' then
        field_string ApplicationSecret (\<lambda>s x. x\<lparr>ApplicationSecret := s\<rparr>) v x
      else if EqualFold k ''ConsumerKey'' then
        field_string ConsumerKey (\<lambda>s x. x\<lparr>ConsumerKey := s\<rparr>) v x
      else if EqualFold k ''Url'' then field_string Url (\<lambda>s x. x\<lparr>Url := s\<rparr>) v x
      else (None, x))"

definition new_ApiOvhError :: ApiOvhError where
  "new_ApiOvhError = \<lparr>Message = [], Code = 0, Tracer = []\<rparr>"

definition new_GetCKResponse :: GetCKResponse where
  "new_GetCKResponse = \<lparr>ck_ConsumerKey = [], Status = [], ValidationUrl = []\<rparr>"

text \<open>
  \<^verbatim>\<open>func (caller *Caller) GetConsumerKey(ckParams *GetCKParams) (*GetCKResponse, error)\<close>.
  \<^verbatim>\<open>ckParams\<close> may be \<^verbatim>\<open>nil\<close>. \<^verbatim>\<open>http.StatusInternalServerError\<close> is 500.
\<close>

definition GetConsumerKey ::
  "(GetCKParams option, 'r) world \<Rightarrow> Caller \<Rightarrow> GetCKParams option \<Rightarrow> (error + GetCKResponse) ret" where
  "GetConsumerKey w caller ckParams =
     (case json_Marshal w ckParams of
        Inl m \<Rightarrow> \<lparr>returned = Inl (NewError m 500), session = caller, sent = []\<rparr>
      | Inr params \<Rightarrow>
          (case http_NewRequest w ''POST'' (Sprintf ''%s/auth/credential'' [ArgS (Url caller)]) of
             Some m \<Rightarrow> \<lparr>returned = Inl (NewError m 500), session = caller, sent = []\<rparr>
           | None \<Rightarrow>
               (let request =
                      \<lparr>req_Method = ''POST'',
                       req_URL = Sprintf ''%s/auth/credential'' [ArgS (Url caller)],
                       req_Header =
                         Header_Add ''X-OVH-Application'' (ApplicationKey caller)
                           (Header_Add ''Content-Type'' ''application/json'' no_header),
                       req_Body = params\<rparr>
                in case Do_ReadAll w request of
                     Inl m \<Rightarrow>
                       \<lparr>returned = Inl (NewError m 500), session = caller, sent = [request]\<rparr>
                   | Inr (status, body) \<Rightarrow>
                       (if status = 200 then
                          (case json_Unmarshal (json_parse w) (decode_struct GetCKResponse_set)
                                  body new_GetCKResponse of
                             (Some m, _) \<Rightarrow>
                               \<lparr>returned = Inl (NewError m 500), session = caller,
                                sent = [request]\<rparr>
                           | (None, askCK) \<Rightarrow>
                               \<lparr>returned = Inr askCK,
                                session = caller\<lparr>ConsumerKey := ck_ConsumerKey askCK\<rparr>,
                                sent = [request]\<rparr>)
                        else
                          (case json_Unmarshal (json_parse w) (decode_struct ApiOvhError_set)
                                  body new_ApiOvhError of
                             (Some m, _) \<Rightarrow>
                               \<lparr>returned = Inl (NewError m 500), session = caller,
                                sent = [request]\<rparr>
                           | (None, apiError) \<Rightarrow>
                               \<lparr>returned = Inl (ApiError (apiError\<lparr>Code := status\<rparr>)),
                                session = caller, sent = [request]\<rparr>)))))"

text \<open>
  The argument \<^verbatim>\<open>typeResult interface{}\<close> of \<^verbatim>\<open>CallApi\<close>.
  \<^verbatim>\<open>json.Unmarshal(resBody, &typeResult)\<close> follows the interface to the pointer it
  holds and writes through it, so what matters is where the destination leads:
  \<^item> \<open>NoTarget\<close>: \<^verbatim>\<open>nil\<close>;
  \<^item> \<open>Self\<close>: the pointer \<^verbatim>\<open>caller\<close> itself;
  \<^item> \<open>FieldPtr f\<close>: a pointer to one field of the session, as \<^verbatim>\<open>&caller.ConsumerKey\<close>
    (the unexported \<^verbatim>\<open>delay\<close> can be pointed to from inside the package);
  \<^item> \<open>Shared r\<close>: any other value, of content \<open>r\<close>, from which the session can be reached:
    a struct, slice, map or pointer that holds the pointer \<^verbatim>\<open>caller\<close> or a pointer to a
    field of the session, or a value whose own decoding method writes to the session;
  \<^item> \<open>Other r\<close>: a value, of content \<open>r\<close>, from which nothing of the session can be
    reached.
\<close>

datatype session_field =
  FieldApplicationKey | FieldApplicationSecret | FieldConsumerKey | FieldUrl | FieldDelay

datatype 'r target = NoTarget | Self | FieldPtr session_field | Shared 'r | Other 'r

fun reaches_session :: "'r target \<Rightarrow> bool" where
  "reaches_session NoTarget = False"
| "reaches_session Self = True"
| "reaches_session (FieldPtr f) = True"
| "reaches_session (Shared r) = True"
| "reaches_session (Other r) = False"

text \<open>
  Decoding a JSON value into one field of the session, through a pointer to the field: a
  string into a string field, an integer into \<^verbatim>\<open>delay\<close>.
\<close>

definition decode_field :: "session_field \<Rightarrow> json \<Rightarrow> Caller \<Rightarrow> string option \<times> Caller" where
  "decode_field f j caller =
     (case f of
        FieldApplicationKey \<Rightarrow>
          field_string ApplicationKey (\<lambda>s x. x\<lparr>ApplicationKey := s\<rparr>) j caller
      | FieldApplicationSecret \<Rightarrow>
          field_string ApplicationSecret (\<lambda>s x. x\<lparr>ApplicationSecret := s\<rparr>) j caller
      | FieldConsumerKey \<Rightarrow>
          field_string ConsumerKey (\<lambda>s x. x\<lparr>ConsumerKey := s\<rparr>) j caller
      | FieldUrl \<Rightarrow> field_string Url (\<lambda>s x. x\<lparr>Url := s\<rparr>) j caller
      | FieldDelay \<Rightarrow>
          field_int (\<lambda>x. sint (delay x)) (\<lambda>n x. x\<lparr>delay := word_of_int n\<rparr>) j caller)"

definition Unmarshal_typeResult ::
  "('b, 'r) world \<Rightarrow> string \<Rightarrow> Caller \<Rightarrow> 'r target \<Rightarrow> string option \<times> Caller \<times> 'r target" where
  "Unmarshal_typeResult w resBody caller typeResult =
     (case typeResult of
        NoTarget \<Rightarrow>
          (case json_parse w resBody of
             Inl m \<Rightarrow> (Some m, caller, NoTarget)
           | Inr _ \<Rightarrow> (None, caller, NoTarget))
      | Self \<Rightarrow>
          (case json_Unmarshal (json_parse w) (decode_struct Caller_set) resBody caller of
             (e, caller') \<Rightarrow> (e, caller', Self))
      | FieldPtr f \<Rightarrow>
          (case json_Unmarshal (json_parse w) (decode_field f) resBody caller of
             (e, caller') \<Rightarrow> (e, caller', FieldPtr f))
      | Shared r \<Rightarrow>
          (case json_Unmarshal (json_parse w) (\<lambda>j (r, c). json_decode_shared w j r c) resBody
                  (r, caller) of
             (e, r', caller') \<Rightarrow> (e, caller', Shared r'))
      | Other r \<Rightarrow>
          (case json_Unmarshal (json_parse w) (json_decode w) resBody r of
             (e, r') \<Rightarrow> (e, caller, Other r')))"

text \<open>
  \<^verbatim>\<open>func (caller *Caller) CallApi(url, method string, body interface{}, typeResult interface{}) error\<close>.
  \<open>body\<close> is \<open>None\<close> for \<^verbatim>\<open>nil\<close>. \<open>now\<close> is what \<^verbatim>\<open>time.Now().Unix()\<close> gives on
  line 206. The value returned is the error (\<open>None\<close> for \<^verbatim>\<open>nil\<close>) with what
  \<^verbatim>\<open>typeResult\<close> holds afterwards. \<open>CallApi_request\<close> is the request as lines 201 to
  213 build it: method, URL and body of \<^verbatim>\<open>http.NewRequest\<close>, and the five headers.
\<close>

definition CallApi_request ::
  "('b, 'r) world \<Rightarrow> int64 \<Rightarrow> Caller \<Rightarrow> string \<Rightarrow> string \<Rightarrow> string \<Rightarrow> Request" where
  "CallApi_request w now caller completeUrl method params =
     (let timestamp = now + delay caller;
          signature =
            getSignature (sha1_Sum w) caller method completeUrl (Sprintf ''%s'' [ArgS params])
              timestamp
      in \<lparr>req_Method = method,
          req_URL = completeUrl,
          req_Header =
            Header_Add ''X-Ovh-Signature'' signature
              (Header_Add ''X-Ovh-Consumer'' (ConsumerKey caller)
                 (Header_Add ''X-Ovh-Application'' (ApplicationKey caller)
                    (Header_Add ''X-Ovh-Timestamp'' (Sprintf ''%d'' [ArgD (sint timestamp)])
                       (Header_Add ''Content-Type'' ''application/json'' no_header)))),
          req_Body = params\<rparr>)"

definition CallApi ::
  "('b, 'r) world \<Rightarrow> int64 \<Rightarrow> Caller \<Rightarrow> string \<Rightarrow> string \<Rightarrow> 'b option \<Rightarrow> 'r target
     \<Rightarrow> (error option \<times> 'r target) ret" where
  "CallApi w now caller url method body typeResult =
     (case (case body of None \<Rightarrow> Inr [] | Some b \<Rightarrow> json_Marshal w b) of
        Inl m \<Rightarrow>
          \<lparr>returned = (Some (NewError m 500), typeResult), session = caller, sent = []\<rparr>
      | Inr params \<Rightarrow>
          (let completeUrl = Sprintf ''%s%s'' [ArgS (Url caller), ArgS url]
           in case http_NewRequest w method completeUrl of
                Some m \<Rightarrow>
                  \<lparr>returned = (Some (NewError m 500), typeResult), session = caller, sent = []\<rparr>
              | None \<Rightarrow>
                  (let request = CallApi_request w now caller completeUrl method params
                   in case Do_ReadAll w request of
                        Inl m \<Rightarrow>
                          \<lparr>returned = (Some (NewError m 500), typeResult), session = caller,
                           sent = [request]\<rparr>
                      | Inr (status, resBody) \<Rightarrow>
                          (if 200 \<le> status \<and> status < 300 then
                             (if 0 < length resBody \<and> typeResult \<noteq> NoTarget then
                                (case Unmarshal_typeResult w resBody caller typeResult of
                                   (Some m, caller', typeResult') \<Rightarrow>
                                     \<lparr>returned = (Some (NewError m 500), typeResult'),
                                      session = caller', sent = [request]\<rparr>
                                 | (None, caller', typeResult') \<Rightarrow>
                                     \<lparr>returned = (None, typeResult'), session = caller',
                                      sent = [request]\<rparr>)
                              else
                                \<lparr>returned = (None, typeResult), session = caller,
                                 sent = [request]\<rparr>)
                           else
                             (case json_Unmarshal (json_parse w) (decode_struct ApiOvhError_set)
                                     resBody new_ApiOvhError of
                                (Some m, _) \<Rightarrow>
                                  \<lparr>returned = (Some (NewError m 500), typeResult),
                                   session = caller, sent = [request]\<rparr>
                              | (None, apiError) \<Rightarrow>
                                  \<lparr>returned =
                                     (Some (ApiError (apiError\<lparr>Code := status\<rparr>)), typeResult),
                                   session = caller, sent = [request]\<rparr>)))))"

section \<open>src/unnamed/part\_000\<close>

definition APIURL :: "string \<rightharpoonup> string" where
  "APIURL =
     [''ovh-eu'' \<mapsto> ''https://api.ovh.com/1.0'',
      ''ovh-ca'' \<mapsto> ''https://ca.api.ovh.com/1.0'',
      ''runabove'' \<mapsto> ''https://api.runabove.com/1.0'']"

text \<open>\<^verbatim>\<open>func (caller *Caller) Time() (*time.Time, error)\<close>\<close>

definition Time_part0 :: "('b, 'r) world \<Rightarrow> Caller \<Rightarrow> (error + time_Time) ret" where
  "Time_part0 w caller =
     (case http_NewRequest w ''GET'' (Sprintf ''%s/auth/time'' [ArgS (Url caller)]) of
        Some m \<Rightarrow> \<lparr>returned = Inl (LibError m), session = caller, sent = []\<rparr>
      | None \<Rightarrow>
          (let request =
                 \<lparr>req_Method = ''GET'',
                  req_URL = Sprintf ''%s/auth/time'' [ArgS (Url caller)],
                  req_Header = Header_Add ''Content-Type'' ''application/json'' no_header,
                  req_Body = []\<rparr>
           in \<lparr>returned =
                  (case Do_ReadAll w request of
                     Inl m \<Rightarrow> Inl (LibError m)
                   | Inr (status, body) \<Rightarrow>
                       (if status \<noteq> 200 then
                          Inl (ErrorString
                                 (Sprintf ''API seems down, HTTP response: %d'' [ArgD status]))
                        else
                          (case Atoi body of
                             Inl err \<Rightarrow> Inl err
                           | Inr ts \<Rightarrow> Inr (time_Unix ts)))),
                session = caller,
                sent = [request]\<rparr>))"

text \<open>
  \<^verbatim>\<open>func NewCaller(...)\<close> of \<^verbatim>\<open>part_000\<close>. \<open>now\<close> is the instant \<^verbatim>\<open>time.Now()\<close>
  gives inside \<^verbatim>\<open>time.Since\<close> on line 60, after \<^verbatim>\<open>Time\<close> has returned.
  \<^verbatim>\<open>%q\<close> prints \<^verbatim>\<open>strconv.Quote(endpoint)\<close>.
\<close>

definition NewCaller_part0 ::
  "('b, 'r) world \<Rightarrow> time_Time \<Rightarrow> string \<Rightarrow> string \<Rightarrow> string \<Rightarrow> string \<Rightarrow> error + Caller" where
  "NewCaller_part0 w now endpoint applicationKey applicationSecret consumerKey =
     (case APIURL endpoint of
        None \<Rightarrow> Inl (ErrorString (''Invalid endpoint '' @ strconv_Quote w endpoint))
      | Some url \<Rightarrow>
          (let caller =
                 \<lparr>ApplicationKey = applicationKey,
                  ApplicationSecret = applicationSecret,
                  ConsumerKey = consumerKey,
                  Url = url,
                  delay = 0\<rparr>
           in case returned (Time_part0 w caller) of
                Inl err \<Rightarrow> Inl err
              | Inr ovhTime \<Rightarrow> Inr (caller\<lparr>delay := Since now ovhTime\<rparr>)))"

definition Ping_part0 :: "('b, 'r) world \<Rightarrow> Caller \<Rightarrow> error option ret" where
  "Ping_part0 w caller =
     (let t = Time_part0 w caller
      in \<lparr>returned = (case returned t of Inl err \<Rightarrow> Some err | Inr _ \<Rightarrow> None),
          session = session t,
          sent = sent t\<rparr>)"

text \<open>
  In \<^verbatim>\<open>part_000\<close> the fields of \<^verbatim>\<open>GetCKResponse\<close> are tagged
  \<^verbatim>\<open>json:"consumerKey"\<close>, \<^verbatim>\<open>json:"state"\<close> and \<^verbatim>\<open>json:"validationUrl"\<close>: a key
  is matched with the tag.
\<close>

definition GetCKResponse_set_part0 :: "GetCKResponse setter" where
  "GetCKResponse_set_part0 k v x =
     (if EqualFold k ''consumerKey'' then
        field_string ck_ConsumerKey (\<lambda>s x. x\<lparr>ck_ConsumerKey := s\<rparr>) v x
      else if EqualFold k ''state'' then field_string Status (\<lambda>s x. x\<lparr>Status := s\<rparr>) v x
      else if EqualFold k ''validationUrl'' then
        field_string ValidationUrl (\<lambda>s x. x\<lparr>ValidationUrl := s\<rparr>) v x
      else (None, x))"

definition GetConsumerKey_part0 ::
  "(GetCKParams option, 'r) world \<Rightarrow> Caller \<Rightarrow> GetCKParams option \<Rightarrow> (error + GetCKResponse) ret" where
  "GetConsumerKey_part0 w caller ckParams =
     (case json_Marshal w ckParams of
        Inl m \<Rightarrow> \<lparr>returned = Inl (LibError m), session = caller, sent = []\<rparr>
      | Inr params \<Rightarrow>
          (case http_NewRequest w ''POST'' (Sprintf ''%s/auth/credential'' [ArgS (Url caller)]) of
             Some m \<Rightarrow> \<lparr>returned = Inl (LibError m), session = caller, sent = []\<rparr>
           | None \<Rightarrow>
               (let request =
                      \<lparr>req_Method = ''POST'',
                       req_URL = Sprintf ''%s/auth/credential'' [ArgS (Url caller)],
                       req_Header =
                         Header_Add ''X-OVH-Application'' (ApplicationKey caller)
                           (Header_Add ''Content-Type'' ''application/json'' no_header),
                       req_Body = params\<rparr>
                in case Do_ReadAll w request of
                     Inl m \<Rightarrow> \<lparr>returned = Inl (LibError m), session = caller, sent = [request]\<rparr>
                   | Inr (status, body) \<Rightarrow>
                       (if status = 200 then
                          (case json_Unmarshal (json_parse w)
                                  (decode_struct GetCKResponse_set_part0) body new_GetCKResponse of
                             (Some m, _) \<Rightarrow>
                               \<lparr>returned = Inl (LibError m), session = caller, sent = [request]\<rparr>
                           | (None, askCK) \<Rightarrow>
                               \<lparr>returned = Inr askCK,
                                session = caller\<lparr>ConsumerKey := ck_ConsumerKey askCK\<rparr>,
                                sent = [request]\<rparr>)
                        else
                          (case json_Unmarshal (json_parse w) (decode_struct ApiOvhError_set)
                                  body (new_ApiOvhError\<lparr>Code := status\<rparr>) of
                             (Some m, _) \<Rightarrow>
                               \<lparr>returned = Inl (LibError m), session = caller, sent = [request]\<rparr>
                           | (None, apiError) \<Rightarrow>
                               \<lparr>returned = Inl (ApiError apiError), session = caller,
                                sent = [request]\<rparr>)))))"

text \<open>
  \<^verbatim>\<open>func (caller *Caller) CallAPI(url, method string, body interface{}, typeResult interface{}) error\<close>.
  \<open>now\<close> is the instant \<^verbatim>\<open>time.Now()\<close> gives on line 205. The five headers are
  added while ranging over a map literal, in an order Go does not fix; they are added
  here in the order of the literal (\<open>CallAPI_headers_any_order\<close> below: the order makes
  no difference). \<open>CallAPI_request\<close> is the request as lines 200 to 216 build it.
\<close>

definition CallAPI_headers :: "Caller \<Rightarrow> int64 \<Rightarrow> string \<Rightarrow> (string \<times> string) list" where
  "CallAPI_headers caller timestamp sig' =
     [(''Content-Type'', ''application/json''),
      (''X-Ovh-Timestamp'', FormatInt (sint timestamp)),
      (''X-Ovh-Application'', ApplicationKey caller),
      (''X-Ovh-Consumer'', ConsumerKey caller),
      (''X-Ovh-Signature'', sig')]"

definition CallAPI_request ::
  "('b, 'r) world \<Rightarrow> time_Time \<Rightarrow> Caller \<Rightarrow> string \<Rightarrow> string \<Rightarrow> string \<Rightarrow> Request" where
  "CallAPI_request w now caller completeURL method params =
     (let timestamp = Unix (Add now (delay caller));
          sig' = getSignature_part0 (sha1_Sum w) caller method completeURL params timestamp
      in \<lparr>req_Method = method,
          req_URL = completeURL,
          req_Header =
            fold (\<lambda>(h, v). Header_Add h v) (CallAPI_headers caller timestamp sig') no_header,
          req_Body = params\<rparr>)"

definition CallAPI ::
  "('b, 'r) world \<Rightarrow> time_Time \<Rightarrow> Caller \<Rightarrow> string \<Rightarrow> string \<Rightarrow> 'b option \<Rightarrow> 'r target
     \<Rightarrow> (error option \<times> 'r target) ret" where
  "CallAPI w now caller url method body typeResult =
     (case (case body of None \<Rightarrow> Inr [] | Some b \<Rightarrow> json_Marshal w b) of
        Inl m \<Rightarrow> \<lparr>returned = (Some (LibError m), typeResult), session = caller, sent = []\<rparr>
      | Inr params \<Rightarrow>
          (let completeURL = Url caller @ url
           in case http_NewRequest w method completeURL of
                Some m \<Rightarrow>
                  \<lparr>returned = (Some (LibError m), typeResult), session = caller, sent = []\<rparr>
              | None \<Rightarrow>
                  (let request = CallAPI_request w now caller completeURL method params
                   in case Do_ReadAll w request of
                        Inl m \<Rightarrow>
                          \<lparr>returned = (Some (LibError m), typeResult), session = caller,
                           sent = [request]\<rparr>
                      | Inr (status, resBody) \<Rightarrow>
                          (if 200 \<le> status \<and> status < 300 then
                             (if 0 < length resBody \<and> typeResult \<noteq> NoTarget then
                                (case Unmarshal_typeResult w resBody caller typeResult of
                                   (Some m, caller', typeResult') \<Rightarrow>
                                     \<lparr>returned = (Some (LibError m), typeResult'),
                                      session = caller', sent = [request]\<rparr>
                                 | (None, caller', typeResult') \<Rightarrow>
                                     \<lparr>returned = (None, typeResult'), session = caller',
                                      sent = [request]\<rparr>)
                              else
                                \<lparr>returned = (None, typeResult), session = caller,
                                 sent = [request]\<rparr>)
                           else
                             (case json_Unmarshal (json_parse w) (decode_struct ApiOvhError_set)
                                     resBody (new_ApiOvhError\<lparr>Code := status\<rparr>) of
                                (Some m, _) \<Rightarrow>
                                  \<lparr>returned = (Some (LibError m), typeResult),
                                   session = caller, sent = [request]\<rparr>
                              | (None, apiError) \<Rightarrow>
                                  \<lparr>returned = (Some (ApiError apiError), typeResult),
                                   session = caller, sent = [request]\<rparr>)))))"

section \<open>Collaborators for the examples\<close>

text \<open>
  A server that answers every request with the status \<open>status\<close> and the body \<open>body\<close>,
  and a JSON scanner that reads \<open>body\<close> as \<open>tree\<close> (\<open>None\<close>: \<open>body\<close> is not valid JSON).
  Encoding a request body gives \<^verbatim>\<open>{}\<close>, and \<^verbatim>\<open>http.NewRequest\<close> accepts every
  method and URL. The digest is the first 20 bytes of its input: not a hash, but the
  examples do not depend on it.
\<close>

definition server :: "int \<Rightarrow> string \<Rightarrow> json option \<Rightarrow> ('b, 'r) world" where
  "server status body tree =
     \<lparr>sha1_Sum = take 20,
      json_Marshal = (\<lambda>b. Inr ''{}''),
      json_parse =
        (\<lambda>data. if data = body then (case tree of None \<Rightarrow> Inl ''invalid JSON'' | Some j \<Rightarrow> Inr j)
                else Inl ''invalid JSON''),
      json_decode = (\<lambda>j r. (None, r)),
      json_decode_shared = (\<lambda>j r c. (None, r, c)),
      strconv_Quote = (\<lambda>s. s),
      http_NewRequest = (\<lambda>method url. None),
      http_Do = (\<lambda>request. Inr \<lparr>StatusCode = status, Body = Inr body\<rparr>)\<rparr>"

text \<open>
  Response bodies of the examples, each with the tree the JSON scanner reads it as.
\<close>

definition error_body :: string where
  \<open>error_body = ''{"message":"Not found","code":400}''\<close>

definition error_tree :: json where
  "error_tree = JObj [(''message'', JStr ''Not found''), (''code'', JInt 400)]"

definition grant_body :: string where
  \<open>grant_body =
     ''{"consumerKey":"abc","state":"pendingValidation","validationUrl":"https://eu.api.ovh.com/auth/?credentialToken=xyz"}''\<close>

definition grant_tree :: json where
  "grant_tree =
     JObj [(''consumerKey'', JStr ''abc''), (''state'', JStr ''pendingValidation''),
           (''validationUrl'', JStr ''https://eu.api.ovh.com/auth/?credentialToken=xyz'')]"

definition session_body :: string where
  \<open>session_body = ''{"ConsumerKey":"other"}''\<close>

definition session_tree :: json where
  "session_tree = JObj [(''ConsumerKey'', JStr ''other'')]"

definition token_body :: string where
  \<open>token_body = ''"other"''\<close>

definition token_tree :: json where
  "token_tree = JStr ''other''"

definition example_caller :: Caller where
  "example_caller =
     \<lparr>ApplicationKey = ''AK'', ApplicationSecret = ''AS'', ConsumerKey = ''CK'',
      Url = ''https://api.ovh.com/1.0'', delay = 0\<rparr>"

section \<open>Properties of the signature\<close>

lemma Sprintf_s: "Sprintf (CHR ''%'' # CHR ''s'' # fmt) (ArgS s # args) = s @ Sprintf fmt args"
  by simp

lemma Sprintf_d: "Sprintf (CHR ''%'' # CHR ''d'' # fmt) (ArgD n # args) = FormatInt n @ Sprintf fmt args"
  by simp

lemma Sprintf_plus: "Sprintf (CHR ''+'' # v # fmt) args = CHR ''+'' # Sprintf (v # fmt) args"
  by simp

lemma sig_eq:
  "sig caller method url body t =
     ApplicationSecret caller @ ''+'' @ ConsumerKey caller @ ''+'' @ method @ ''+'' @ url @ ''+'' @
     body @ ''+'' @ FormatInt (sint t)"
  unfolding sig_def
  by (simp only: Sprintf_s Sprintf_d Sprintf_plus Sprintf.simps(1) append_Nil append_Nil2 append_Cons)

lemma sig_part0_eq:
  "sig_part0 caller method url body t =
     ApplicationSecret caller @ ''+'' @ ConsumerKey caller @ ''+'' @ method @ ''+'' @ url @ ''+'' @
     body @ ''+'' @ FormatInt (sint t)"
  unfolding sig_part0_def by simp

lemma hex_EncodeToString_length: "length (hex_EncodeToString src) = 2 * length src"
  unfolding hex_EncodeToString_def by (induction src) simp_all

lemma hex_digit_lowercase: "n < 16 \<Longrightarrow> hextable ! n \<in> set ''0123456789abcdef''"
  unfolding hextable_def by (rule nth_mem) simp

lemma hex_EncodeToString_lowercase:
  "set (hex_EncodeToString src) \<subseteq> set ''0123456789abcdef''"
proof (induction src)
  case Nil
  show ?case by (simp add: hex_EncodeToString_def)
next
  case (Cons b src)
  have "(of_char b :: nat) mod 256 < 256"
    by simp
  then have "(of_char b :: nat) < 256"
    by (simp only: of_char_mod_256)
  then have hi: "(of_char b :: nat) div 16 < 16"
    by arith
  have lo: "(of_char b :: nat) mod 16 < 16"
    by simp
  have "hex_EncodeToString (b # src) =
          [hextable ! (of_char b div 16), hextable ! (of_char b mod 16)] @ hex_EncodeToString src"
    by (simp add: hex_EncodeToString_def)
  with Cons hex_digit_lowercase [OF hi] hex_digit_lowercase [OF lo] show ?case
    by auto
qed

text \<open>
  Claim C10. The two versions of \<^verbatim>\<open>getSignature\<close> agree: for the same digest
  function, the same caller (application secret and consumer key) and the same method,
  URL, body and timestamp, \<^verbatim>\<open>getSignature\<close> of \<^verbatim>\<open>src/caller.go\<close> and
  \<^verbatim>\<open>getSignature\<close> of \<^verbatim>\<open>src/unnamed/part_000\<close> return the same string.
\<close>

theorem getSignature_versions_agree:
  "getSignature digest caller method url body t =
   getSignature_part0 digest caller method url body t"
  unfolding getSignature_def getSignature_part0_def
  by (simp only: sig_eq sig_part0_eq)

text \<open>
  Claim C3, as amended. For every secret, consumer key (possibly empty), method, URL,
  body and timestamp, both versions of \<^verbatim>\<open>getSignature\<close> return \<^verbatim>\<open>$1$\<close> followed by
  the lowercase hexadecimal digest of the concatenation, joined by \<^verbatim>\<open>+\<close> and in this
  order, of: the application secret, the consumer key, the method \<^emph>\<open>exactly as it is
  passed\<close> (no conversion to upper case is made), the URL, the body, and the decimal
  form of the timestamp. (\<open>hex_EncodeToString_lowercase\<close>: the encoding uses the digits
  \<^verbatim>\<open>0123456789abcdef\<close> only.)
\<close>

theorem getSignature_format:
  "getSignature digest caller method url body t =
     ''$1$'' @ hex_EncodeToString (digest
       (ApplicationSecret caller @ ''+'' @ ConsumerKey caller @ ''+'' @ method @ ''+'' @ url @
        ''+'' @ body @ ''+'' @ FormatInt (sint t)))
   \<and> getSignature_part0 digest caller method url body t =
     ''$1$'' @ hex_EncodeToString (digest
       (ApplicationSecret caller @ ''+'' @ ConsumerKey caller @ ''+'' @ method @ ''+'' @ url @
        ''+'' @ body @ ''+'' @ FormatInt (sint t)))"
  unfolding getSignature_def getSignature_part0_def
  by (simp only: sig_eq sig_part0_eq simp_thms)

text \<open>
  Claim C3 as stated fails for a method that is passed in lower case. With the secret
  \<^verbatim>\<open>AS\<close>, the consumer key \<^verbatim>\<open>CK\<close>, the method \<^verbatim>\<open>get\<close>, the URL
  \<^verbatim>\<open>https://api.ovh.com/1.0/me\<close>, an empty body and the timestamp 1, both versions hash
  \<^verbatim>\<open>AS+CK+get+https://api.ovh.com/1.0/me++1\<close>, which is not the string with the upper
  case method name; and the value returned is not, for every digest function, the
  encoding of the digest of that string.
\<close>

theorem getSignature_uppercase_counterexample:
  "sig \<lparr>ApplicationKey = ''AK'', ApplicationSecret = ''AS'', ConsumerKey = ''CK'',
        Url = ''https://api.ovh.com/1.0'', delay = 0\<rparr>
      ''get'' ''https://api.ovh.com/1.0/me'' [] 1
     = ''AS+CK+get+https://api.ovh.com/1.0/me++1''
   \<and> sig_part0 \<lparr>ApplicationKey = ''AK'', ApplicationSecret = ''AS'', ConsumerKey = ''CK'',
        Url = ''https://api.ovh.com/1.0'', delay = 0\<rparr>
      ''get'' ''https://api.ovh.com/1.0/me'' [] 1
     = ''AS+CK+get+https://api.ovh.com/1.0/me++1''
   \<and> ''AS+CK+get+https://api.ovh.com/1.0/me++1''
       \<noteq> ''AS+CK+'' @ map toUpper ''get'' @ ''+https://api.ovh.com/1.0/me++1''
   \<and> \<not> (\<forall>digest.
          getSignature digest
            \<lparr>ApplicationKey = ''AK'', ApplicationSecret = ''AS'', ConsumerKey = ''CK'',
             Url = ''https://api.ovh.com/1.0'', delay = 0\<rparr>
            ''get'' ''https://api.ovh.com/1.0/me'' [] 1
          = ''$1$'' @ hex_EncodeToString (digest
              (''AS+CK+'' @ map toUpper ''get'' @ ''+https://api.ovh.com/1.0/me++1'')))"
proof -
  let ?c = "\<lparr>ApplicationKey = ''AK'', ApplicationSecret = ''AS'', ConsumerKey = ''CK'',
             Url = ''https://api.ovh.com/1.0'', delay = 0\<rparr>"
  have one: "FormatInt 1 = ''1''"
    by code_simp
  have a: "sig ?c ''get'' ''https://api.ovh.com/1.0/me'' [] 1
             = ''AS+CK+get+https://api.ovh.com/1.0/me++1''"
    by (simp add: sig_eq one)
  have b: "sig_part0 ?c ''get'' ''https://api.ovh.com/1.0/me'' [] 1
             = ''AS+CK+get+https://api.ovh.com/1.0/me++1''"
    by (simp add: sig_part0_eq one)
  have up: "map toUpper ''get'' = ''GET''"
    by (simp add: toUpper_def)
  have c: "''AS+CK+get+https://api.ovh.com/1.0/me++1''
             \<noteq> ''AS+CK+'' @ map toUpper ''get'' @ ''+https://api.ovh.com/1.0/me++1''"
    unfolding up by simp
  have d: "\<not> (\<forall>digest. getSignature digest ?c ''get'' ''https://api.ovh.com/1.0/me'' [] 1
             = ''$1$'' @ hex_EncodeToString (digest
                 (''AS+CK+'' @ map toUpper ''get'' @ ''+https://api.ovh.com/1.0/me++1'')))"
  proof
    assume all: "\<forall>digest. getSignature digest ?c ''get'' ''https://api.ovh.com/1.0/me'' [] 1
             = ''$1$'' @ hex_EncodeToString (digest
                 (''AS+CK+'' @ map toUpper ''get'' @ ''+https://api.ovh.com/1.0/me++1''))"
    let ?d = "\<lambda>s. if s = ''AS+CK+get+https://api.ovh.com/1.0/me++1'' then ''x'' else []"
    from all have "getSignature ?d ?c ''get'' ''https://api.ovh.com/1.0/me'' [] 1
             = ''$1$'' @ hex_EncodeToString (?d
                 (''AS+CK+'' @ map toUpper ''get'' @ ''+https://api.ovh.com/1.0/me++1''))"
      by (rule spec)
    then have "length (hex_EncodeToString ''x'') = length (hex_EncodeToString [])"
      unfolding up by (simp add: getSignature_def a)
    then show False
      by (simp add: hex_EncodeToString_length)
  qed
  from a b c d show ?thesis by blast
qed

section \<open>Properties of strconv.Atoi\<close>

lemma digit_table:
  "d < 10 \<Longrightarrow> is_digit (''0123456789'' ! d) \<and> digit_val (''0123456789'' ! d) = d
     \<and> ''0123456789'' ! d \<noteq> CHR ''-'' \<and> ''0123456789'' ! d \<noteq> CHR ''+''"
proof -
  assume "d < 10"
  then have "d \<in> set [0..<10]" by simp
  moreover have "\<forall>d \<in> set [0..<10].
      is_digit (''0123456789'' ! d) \<and> digit_val (''0123456789'' ! d) = d
      \<and> ''0123456789'' ! d \<noteq> CHR ''-'' \<and> ''0123456789'' ! d \<noteq> CHR ''+''"
    by code_simp
  ultimately show ?thesis by blast
qed

lemma parse_digits_snoc: "parse_digits (ds @ [c]) = 10 * parse_digits ds + digit_val c"
  by (simp add: parse_digits_def)

lemma digits_props:
  "digits n \<noteq> [] \<and> list_all is_digit (digits n) \<and> parse_digits (digits n) = n
     \<and> hd (digits n) \<noteq> CHR ''-'' \<and> hd (digits n) \<noteq> CHR ''+''"
proof (induction n rule: digits.induct)
  case (1 n)
  show ?case
  proof (cases "n < 10")
    case True
    then have "digits n = [''0123456789'' ! n]"
      by (simp add: digits.simps [of n])
    with digit_table [OF True] show ?thesis
      by (simp add: parse_digits_def)
  next
    case False
    then have eq: "digits n = digits (n div 10) @ [''0123456789'' ! (n mod 10)]"
      by (simp add: digits.simps [of n])
    have m: "n mod 10 < 10" by simp
    from 1 [OF False] digit_table [OF m] show ?thesis
      unfolding eq by (simp add: parse_digits_snoc)
  qed
qed

lemma decimal_FormatInt: "decimal (FormatInt n) = Some n"
proof (cases "n < 0")
  case True
  then show ?thesis
    using digits_props [of "nat (- n)"] by (simp add: decimal_def FormatInt_def)
next
  case False
  then show ?thesis
    using digits_props [of "nat n"] by (simp add: decimal_def FormatInt_def Let_def)
qed

lemma Atoi_FormatInt:
  "- (2 ^ 63) \<le> n \<Longrightarrow> n < 2 ^ 63 \<Longrightarrow> Atoi (FormatInt n) = Inr (word_of_int n)"
  by (simp add: Atoi_def decimal_FormatInt)

lemma sint_word_of_int_int64:
  "- (2 ^ 63) \<le> n \<Longrightarrow> n < 2 ^ 63 \<Longrightarrow> sint (word_of_int n :: int64) = n"
  by (simp add: sint_sbintrunc' signed_take_bit_int_eq_self)

lemma Sprintf_only_s: "Sprintf ''%s'' [ArgS s] = s"
  by simp

lemma Sprintf_only_d: "Sprintf ''%d'' [ArgD n] = FormatInt n"
  by simp

lemma Sprintf_down: "Sprintf ''API seems down, HTTP response: %d'' [ArgD n]
    = ''API seems down, HTTP response: '' @ FormatInt n"
  by simp

lemma Sprintf_time_url: "Sprintf ''%s/auth/time'' [ArgS u] = u @ ''/auth/time''"
  by simp

section \<open>The time endpoint\<close>

text \<open>
  Claim C6, as amended. When \<^verbatim>\<open>Time\<close> has handed its request to the transport and the
  transport has answered with a status and a body, then in both versions:
  a status other than 200 (the statuses 201 to 299 included) is a failure whose message
  ends with the decimal form of that status; with the status 200, a body that is not a
  decimal integer is the parse failure of \<^verbatim>\<open>strconv.Atoi\<close>, and so is a decimal
  integer outside the 64-bit range of \<^verbatim>\<open>int\<close>; with the status 200, a body that is
  a decimal integer within that range gives exactly that integer, as seconds since the
  epoch (in \<^verbatim>\<open>part_000\<close>: the instant that many seconds after the epoch).
\<close>

theorem Time_classification:
  "(sent (Time w caller) = [r] \<longrightarrow> Do_ReadAll w r = Inr (status, body) \<longrightarrow>
      (status \<noteq> 200 \<longrightarrow>
         returned (Time w caller) =
           Inl (ErrorString (''API seems down, HTTP response: '' @ FormatInt status)))
      \<and> (status = 200 \<longrightarrow> decimal body = None \<longrightarrow>
           returned (Time w caller) = Inl (NumError body))
      \<and> (status = 200 \<longrightarrow> (\<forall>n. decimal body = Some n \<longrightarrow>
           returned (Time w caller) =
             (if - (2 ^ 63) \<le> n \<and> n < 2 ^ 63 then Inr (word_of_int n)
              else Inl (NumError body)))))
   \<and> (sent (Time_part0 w caller) = [r'] \<longrightarrow> Do_ReadAll w r' = Inr (status, body) \<longrightarrow>
      (status \<noteq> 200 \<longrightarrow>
         returned (Time_part0 w caller) =
           Inl (ErrorString (''API seems down, HTTP response: '' @ FormatInt status)))
      \<and> (status = 200 \<longrightarrow> decimal body = None \<longrightarrow>
           returned (Time_part0 w caller) = Inl (NumError body))
      \<and> (status = 200 \<longrightarrow> (\<forall>n. decimal body = Some n \<longrightarrow>
           returned (Time_part0 w caller) =
             (if - (2 ^ 63) \<le> n \<and> n < 2 ^ 63 then Inr (n * 1000000000)
              else Inl (NumError body)))))"
proof (intro conjI impI)
  assume s: "sent (Time w caller) = [r]" and d: "Do_ReadAll w r = Inr (status, body)"
  from s have nr: "http_NewRequest w ''GET'' (Url caller @ ''/auth/time'') = None"
    by (cases "http_NewRequest w ''GET'' (Url caller @ ''/auth/time'')")
       (simp_all add: Time_def Sprintf_time_url)
  from s nr have r: "r = \<lparr>req_Method = ''GET'', req_URL = Url caller @ ''/auth/time'',
                           req_Header = no_header, req_Body = []\<rparr>"
    by (simp add: Time_def Sprintf_time_url Let_def)
  from nr d have ret: "returned (Time w caller) =
      (if status \<noteq> 200 then
         Inl (ErrorString (''API seems down, HTTP response: '' @ FormatInt status))
       else Atoi body)"
    unfolding r by (simp add: Time_def Sprintf_time_url Sprintf_down Let_def)
  { assume "status \<noteq> 200"
    with ret show "returned (Time w caller) =
        Inl (ErrorString (''API seems down, HTTP response: '' @ FormatInt status))"
      by simp }
  { assume "status = 200" "decimal body = None"
    with ret show "returned (Time w caller) = Inl (NumError body)"
      by (simp add: Atoi_def) }
  { assume "status = 200"
    with ret show "\<forall>n. decimal body = Some n \<longrightarrow>
           returned (Time w caller) =
             (if - (2 ^ 63) \<le> n \<and> n < 2 ^ 63 then Inr (word_of_int n)
              else Inl (NumError body))"
      by (simp add: Atoi_def) }
next
  assume s: "sent (Time_part0 w caller) = [r']" and d: "Do_ReadAll w r' = Inr (status, body)"
  from s have nr: "http_NewRequest w ''GET'' (Url caller @ ''/auth/time'') = None"
    by (cases "http_NewRequest w ''GET'' (Url caller @ ''/auth/time'')")
       (simp_all add: Time_part0_def Sprintf_time_url)
  from s nr have r: "r' = \<lparr>req_Method = ''GET'', req_URL = Url caller @ ''/auth/time'',
        req_Header = Header_Add ''Content-Type'' ''application/json'' no_header,
        req_Body = []\<rparr>"
    by (simp add: Time_part0_def Sprintf_time_url Let_def)
  from nr d have ret: "returned (Time_part0 w caller) =
      (if status \<noteq> 200 then
         Inl (ErrorString (''API seems down, HTTP response: '' @ FormatInt status))
       else (case Atoi body of Inl err \<Rightarrow> Inl err | Inr ts \<Rightarrow> Inr (time_Unix ts)))"
    unfolding r by (simp add: Time_part0_def Sprintf_time_url Sprintf_down Let_def)
  { assume "status \<noteq> 200"
    with ret show "returned (Time_part0 w caller) =
        Inl (ErrorString (''API seems down, HTTP response: '' @ FormatInt status))"
      by simp }
  { assume "status = 200" "decimal body = None"
    with ret show "returned (Time_part0 w caller) = Inl (NumError body)"
      by (simp add: Atoi_def) }
  { assume "status = 200"
    with ret show "\<forall>n. decimal body = Some n \<longrightarrow>
           returned (Time_part0 w caller) =
             (if - (2 ^ 63) \<le> n \<and> n < 2 ^ 63 then Inr (n * 1000000000)
              else Inl (NumError body))"
      by (simp add: Atoi_def time_Unix_def sint_word_of_int_int64) }
qed

lemmas decimal_eval = decimal_def parse_digits_def is_digit_def digit_val_def

text \<open>
  The three cases of \<open>Time_classification\<close> at a server that answers 503 with the body
  \<^verbatim>\<open>down\<close>, one that answers 200 with \<^verbatim>\<open>soon\<close>, and one that answers 200 with
  \<^verbatim>\<open>1700000000\<close>.
\<close>

theorem Time_classification_witness:
  "sent (Time (server 503 ''down'' None :: (unit, unit) world) example_caller)
     = [\<lparr>req_Method = ''GET'', req_URL = ''https://api.ovh.com/1.0/auth/time'',
         req_Header = no_header, req_Body = []\<rparr>]
   \<and> Do_ReadAll (server 503 ''down'' None :: (unit, unit) world)
         \<lparr>req_Method = ''GET'', req_URL = ''https://api.ovh.com/1.0/auth/time'',
          req_Header = no_header, req_Body = []\<rparr> = Inr (503, ''down'')
   \<and> returned (Time (server 503 ''down'' None :: (unit, unit) world) example_caller)
       = Inl (ErrorString ''API seems down, HTTP response: 503'')
   \<and> decimal ''soon'' = None
   \<and> returned (Time (server 200 ''soon'' None :: (unit, unit) world) example_caller)
       = Inl (NumError ''soon'')
   \<and> decimal ''1700000000'' = Some 1700000000
   \<and> returned (Time (server 200 ''1700000000'' None :: (unit, unit) world) example_caller)
       = Inr 1700000000
   \<and> returned (Time_part0 (server 503 ''down'' None :: (unit, unit) world) example_caller)
       = Inl (ErrorString ''API seems down, HTTP response: 503'')
   \<and> returned (Time_part0 (server 200 ''soon'' None :: (unit, unit) world) example_caller)
       = Inl (NumError ''soon'')
   \<and> returned (Time_part0 (server 200 ''1700000000'' None :: (unit, unit) world) example_caller)
       = Inr 1700000000000000000"
proof -
  let ?r = "\<lparr>req_Method = ''GET'', req_URL = ''https://api.ovh.com/1.0/auth/time'',
         req_Header = no_header, req_Body = []\<rparr>"
  let ?r' = "\<lparr>req_Method = ''GET'', req_URL = ''https://api.ovh.com/1.0/auth/time'',
         req_Header = Header_Add ''Content-Type'' ''application/json'' no_header,
         req_Body = []\<rparr>"
  have sent: "sent (Time (server st b None :: (unit, unit) world) example_caller) = [?r]"
    for st b
    by (simp add: Time_def server_def example_caller_def Let_def)
  have sent': "sent (Time_part0 (server st b None :: (unit, unit) world) example_caller) = [?r']"
    for st b
    by (simp add: Time_part0_def server_def example_caller_def Let_def)
  have ans: "Do_ReadAll (server st b None :: (unit, unit) world) q = Inr (st, b)" for st b q
    by (simp add: Do_ReadAll_def server_def)
  have f: "FormatInt 503 = ''503''"
    by (simp add: FormatInt_def digits.simps)
  have d1: "decimal ''soon'' = None"
    by (simp add: decimal_eval)
  have d2: "decimal ''1700000000'' = Some 1700000000"
    by (simp add: decimal_eval)
  note t1 = Time_classification [of "server 503 ''down'' None :: (unit, unit) world"
      example_caller ?r 503 "''down''" ?r']
  note t2 = Time_classification [of "server 200 ''soon'' None :: (unit, unit) world"
      example_caller ?r 200 "''soon''" ?r']
  note t3 = Time_classification [of "server 200 ''1700000000'' None :: (unit, unit) world"
      example_caller ?r 200 "''1700000000''" ?r']
  from t1 have a: "returned (Time (server 503 ''down'' None :: (unit, unit) world) example_caller)
       = Inl (ErrorString ''API seems down, HTTP response: 503'')"
    and a': "returned (Time_part0 (server 503 ''down'' None :: (unit, unit) world) example_caller)
       = Inl (ErrorString ''API seems down, HTTP response: 503'')"
    by (simp_all add: sent sent' ans f)
  from t2 have b: "returned (Time (server 200 ''soon'' None :: (unit, unit) world) example_caller)
       = Inl (NumError ''soon'')"
    and b': "returned (Time_part0 (server 200 ''soon'' None :: (unit, unit) world) example_caller)
       = Inl (NumError ''soon'')"
    by (simp_all add: sent sent' ans d1)
  from t3 have c: "returned (Time (server 200 ''1700000000'' None :: (unit, unit) world) example_caller)
       = Inr 1700000000"
    and c': "returned (Time_part0 (server 200 ''1700000000'' None :: (unit, unit) world) example_caller)
       = Inr 1700000000000000000"
    by (simp_all add: sent sent' ans d2)
  from sent [of 503 "''down''"] ans [of 503 "''down''" ?r] a b c a' b' c' d1 d2
  show ?thesis by simp
qed

text \<open>
  Claim C6 as stated fails where the specification's success range and the guard of
  \<^verbatim>\<open>Time\<close> differ, and where the body is an integer too large for \<^verbatim>\<open>int\<close>. A
  response with the status 204 and the body \<^verbatim>\<open>123\<close> is a failure in both versions,
  not the integer 123; a response with the status 200 and the body
  \<^verbatim>\<open>9223372036854775808\<close> (two to the power 63) is a parse failure, not that integer.
\<close>

theorem Time_success_status_counterexample:
  "decimal ''123'' = Some 123
   \<and> returned (Time (server 204 ''123'' None :: (unit, unit) world) example_caller)
       = Inl (ErrorString ''API seems down, HTTP response: 204'')
   \<and> returned (Time_part0 (server 204 ''123'' None :: (unit, unit) world) example_caller)
       = Inl (ErrorString ''API seems down, HTTP response: 204'')
   \<and> decimal ''9223372036854775808'' = Some 9223372036854775808
   \<and> returned (Time (server 200 ''9223372036854775808'' None :: (unit, unit) world)
         example_caller) = Inl (NumError ''9223372036854775808'')
   \<and> returned (Time_part0 (server 200 ''9223372036854775808'' None :: (unit, unit) world)
         example_caller) = Inl (NumError ''9223372036854775808'')"
proof -
  have d1: "decimal ''123'' = Some 123"
    by (simp add: decimal_eval)
  have d2: "decimal ''9223372036854775808'' = Some 9223372036854775808"
    by (simp add: decimal_eval)
  have f: "FormatInt 204 = ''204''"
    by (simp add: FormatInt_def digits.simps)
  have big: "Atoi ''9223372036854775808'' = Inl (NumError ''9223372036854775808'')"
    by (simp add: Atoi_def d2)
  show ?thesis
    by (simp add: d1 d2 f big Time_def Time_part0_def server_def example_caller_def
        Do_ReadAll_def Let_def)
qed

section \<open>The dispatcher, once the transport has answered\<close>

lemma Sprintf_ss: "Sprintf ''%s%s'' [ArgS a, ArgS b] = a @ b"
  by simp

lemma CallApi_sent:
  assumes "sent (CallApi w now caller url method body typeResult) = [r]"
  shows "\<exists>params.
           (case body of None \<Rightarrow> Inr [] | Some b \<Rightarrow> json_Marshal w b) = Inr params
           \<and> http_NewRequest w method (Url caller @ url) = None
           \<and> r = CallApi_request w now caller (Url caller @ url) method params"
proof (cases "case body of None \<Rightarrow> Inr [] | Some b \<Rightarrow> json_Marshal w b")
  case (Inl m)
  with assms show ?thesis by (simp add: CallApi_def)
next
  case (Inr params)
  show ?thesis
  proof (cases "http_NewRequest w method (Url caller @ url)")
    case (Some m)
    with Inr assms show ?thesis by (simp add: CallApi_def Sprintf_ss)
  next
    case None
    with Inr assms have "r = CallApi_request w now caller (Url caller @ url) method params"
      by (simp add: CallApi_def Sprintf_ss Let_def split: sum.splits prod.splits if_splits option.splits)
    with Inr None show ?thesis by simp
  qed
qed

lemma CallApi_answered:
  assumes "sent (CallApi w now caller url method body typeResult) = [r]"
    and "Do_ReadAll w r = Inr (status, resBody)"
  shows "CallApi w now caller url method body typeResult =
     (if 200 \<le> status \<and> status < 300 then
        (if 0 < length resBody \<and> typeResult \<noteq> NoTarget then
           (case Unmarshal_typeResult w resBody caller typeResult of
              (e, caller', typeResult') \<Rightarrow>
                \<lparr>returned = (map_option (\<lambda>m. NewError m 500) e, typeResult'),
                 session = caller', sent = [r]\<rparr>)
         else \<lparr>returned = (None, typeResult), session = caller, sent = [r]\<rparr>)
      else
        (case json_Unmarshal (json_parse w) (decode_struct ApiOvhError_set) resBody
                new_ApiOvhError of
           (e, apiError) \<Rightarrow>
             \<lparr>returned =
                (Some (case e of
                         Some m \<Rightarrow> NewError m 500
                       | None \<Rightarrow> ApiError (apiError\<lparr>Code := status\<rparr>)),
                 typeResult),
              session = caller, sent = [r]\<rparr>))"
proof -
  from CallApi_sent [OF assms(1)] obtain params where
    m: "(case body of None \<Rightarrow> Inr [] | Some b \<Rightarrow> json_Marshal w b) = Inr params"
    and n: "http_NewRequest w method (Url caller @ url) = None"
    and r: "r = CallApi_request w now caller (Url caller @ url) method params"
    by blast
  from assms(2) have d:
    "Do_ReadAll w (CallApi_request w now caller (Url caller @ url) method params)
       = Inr (status, resBody)"
    by (simp add: r)
  show ?thesis
    unfolding r
    by (simp add: CallApi_def Sprintf_ss m n d Let_def split: prod.splits option.splits)
qed

lemma CallAPI_sent:
  assumes "sent (CallAPI w now caller url method body typeResult) = [r]"
  shows "\<exists>params.
           (case body of None \<Rightarrow> Inr [] | Some b \<Rightarrow> json_Marshal w b) = Inr params
           \<and> http_NewRequest w method (Url caller @ url) = None
           \<and> r = CallAPI_request w now caller (Url caller @ url) method params"
proof (cases "case body of None \<Rightarrow> Inr [] | Some b \<Rightarrow> json_Marshal w b")
  case (Inl m)
  with assms show ?thesis by (simp add: CallAPI_def)
next
  case (Inr params)
  show ?thesis
  proof (cases "http_NewRequest w method (Url caller @ url)")
    case (Some m)
    with Inr assms show ?thesis by (simp add: CallAPI_def)
  next
    case None
    with Inr assms have "r = CallAPI_request w now caller (Url caller @ url) method params"
      by (simp add: CallAPI_def Let_def split: sum.splits prod.splits if_splits option.splits)
    with Inr None show ?thesis by simp
  qed
qed

lemma CallAPI_answered:
  assumes "sent (CallAPI w now caller url method body typeResult) = [r]"
    and "Do_ReadAll w r = Inr (status, resBody)"
  shows "CallAPI w now caller url method body typeResult =
     (if 200 \<le> status \<and> status < 300 then
        (if 0 < length resBody \<and> typeResult \<noteq> NoTarget then
           (case Unmarshal_typeResult w resBody caller typeResult of
              (e, caller', typeResult') \<Rightarrow>
                \<lparr>returned = (map_option LibError e, typeResult'),
                 session = caller', sent = [r]\<rparr>)
         else \<lparr>returned = (None, typeResult), session = caller, sent = [r]\<rparr>)
      else
        (case json_Unmarshal (json_parse w) (decode_struct ApiOvhError_set) resBody
                (new_ApiOvhError\<lparr>Code := status\<rparr>) of
           (e, apiError) \<Rightarrow>
             \<lparr>returned =
                (Some (case e of Some m \<Rightarrow> LibError m | None \<Rightarrow> ApiError apiError),
                 typeResult),
              session = caller, sent = [r]\<rparr>))"
proof -
  from CallAPI_sent [OF assms(1)] obtain params where
    m: "(case body of None \<Rightarrow> Inr [] | Some b \<Rightarrow> json_Marshal w b) = Inr params"
    and n: "http_NewRequest w method (Url caller @ url) = None"
    and r: "r = CallAPI_request w now caller (Url caller @ url) method params"
    by blast
  from assms(2) have d:
    "Do_ReadAll w (CallAPI_request w now caller (Url caller @ url) method params)
       = Inr (status, resBody)"
    by (simp add: r)
  show ?thesis
    unfolding r
    by (simp add: CallAPI_def m n d Let_def split: prod.splits option.splits)
qed

section \<open>The example server\<close>

lemma server_Do_ReadAll: "Do_ReadAll (server st b t) q = Inr (st, b)"
  by (simp add: Do_ReadAll_def server_def)

lemma server_NewRequest: "http_NewRequest (server st b t) m u = None"
  by (simp add: server_def)

lemma server_Marshal: "json_Marshal (server st b t) x = Inr ''{}''"
  by (simp add: server_def)

lemma server_parse:
  "json_parse (server st b t) b = (case t of None \<Rightarrow> Inl ''invalid JSON'' | Some j \<Rightarrow> Inr j)"
  by (simp add: server_def)

lemma server_decode: "json_decode (server st b t) j x = (None, x)"
  by (simp add: server_def)

lemma CallApi_sent_eq:
  assumes "(case body of None \<Rightarrow> Inr [] | Some b \<Rightarrow> json_Marshal w b) = Inr params"
    and "http_NewRequest w method (Url caller @ url) = None"
  shows "sent (CallApi w now caller url method body typeResult)
     = [CallApi_request w now caller (Url caller @ url) method params]"
  using assms
  by (simp add: CallApi_def Sprintf_ss Let_def split: sum.splits prod.splits option.splits)

lemma CallAPI_sent_eq:
  assumes "(case body of None \<Rightarrow> Inr [] | Some b \<Rightarrow> json_Marshal w b) = Inr params"
    and "http_NewRequest w method (Url caller @ url) = None"
  shows "sent (CallAPI w now caller url method body typeResult)
     = [CallAPI_request w now caller (Url caller @ url) method params]"
  using assms
  by (simp add: CallAPI_def Let_def split: sum.splits prod.splits option.splits)

section \<open>Classification of a response by the dispatcher\<close>

text \<open>
  Claim C5, as amended. When the dispatcher has handed its request to the transport and
  the transport has answered with a status and a body, then in both versions: with a
  status in [200,300) the call returns no error when the body is empty (also when a
  response shape was requested) or when no shape was requested; when a shape was
  requested and the body is not empty, the call returns no error exactly when the body
  decodes into the shape, and the error of the decoder otherwise. With a status of 199 or
  below or of 300 or above the call returns an error whatever the body is.
\<close>

theorem CallApi_classification:
  "(sent (CallApi w now caller url method body typeResult) = [r] \<longrightarrow>
    Do_ReadAll w r = Inr (status, resBody) \<longrightarrow>
      (200 \<le> status \<and> status < 300 \<longrightarrow>
         (resBody = [] \<or> typeResult = NoTarget \<longrightarrow>
            fst (returned (CallApi w now caller url method body typeResult)) = None)
         \<and> (resBody \<noteq> [] \<and> typeResult \<noteq> NoTarget \<longrightarrow>
            fst (returned (CallApi w now caller url method body typeResult)) =
              map_option (\<lambda>m. NewError m 500)
                (fst (Unmarshal_typeResult w resBody caller typeResult))))
      \<and> (status < 200 \<or> 300 \<le> status \<longrightarrow>
           fst (returned (CallApi w now caller url method body typeResult)) \<noteq> None))
   \<and> (sent (CallAPI w now' caller url method body typeResult) = [r'] \<longrightarrow>
      Do_ReadAll w r' = Inr (status, resBody) \<longrightarrow>
      (200 \<le> status \<and> status < 300 \<longrightarrow>
         (resBody = [] \<or> typeResult = NoTarget \<longrightarrow>
            fst (returned (CallAPI w now' caller url method body typeResult)) = None)
         \<and> (resBody \<noteq> [] \<and> typeResult \<noteq> NoTarget \<longrightarrow>
            fst (returned (CallAPI w now' caller url method body typeResult)) =
              map_option LibError (fst (Unmarshal_typeResult w resBody caller typeResult))))
      \<and> (status < 200 \<or> 300 \<le> status \<longrightarrow>
           fst (returned (CallAPI w now' caller url method body typeResult)) \<noteq> None))"
proof (intro conjI impI)
  assume s: "sent (CallApi w now caller url method body typeResult) = [r]"
    and d: "Do_ReadAll w r = Inr (status, resBody)"
  note eq = CallApi_answered [OF s d]
  { assume "200 \<le> status \<and> status < 300" "resBody = [] \<or> typeResult = NoTarget"
    then show "fst (returned (CallApi w now caller url method body typeResult)) = None"
      unfolding eq by auto }
  { assume "200 \<le> status \<and> status < 300" "resBody \<noteq> [] \<and> typeResult \<noteq> NoTarget"
    then show "fst (returned (CallApi w now caller url method body typeResult)) =
        map_option (\<lambda>m. NewError m 500) (fst (Unmarshal_typeResult w resBody caller typeResult))"
      unfolding eq by (simp split: prod.splits) }
  { assume "status < 200 \<or> 300 \<le> status"
    then show "fst (returned (CallApi w now caller url method body typeResult)) \<noteq> None"
      unfolding eq by (auto split: prod.splits) }
next
  assume s: "sent (CallAPI w now' caller url method body typeResult) = [r']"
    and d: "Do_ReadAll w r' = Inr (status, resBody)"
  note eq = CallAPI_answered [OF s d]
  { assume "200 \<le> status \<and> status < 300" "resBody = [] \<or> typeResult = NoTarget"
    then show "fst (returned (CallAPI w now' caller url method body typeResult)) = None"
      unfolding eq by auto }
  { assume "200 \<le> status \<and> status < 300" "resBody \<noteq> [] \<and> typeResult \<noteq> NoTarget"
    then show "fst (returned (CallAPI w now' caller url method body typeResult)) =
        map_option LibError (fst (Unmarshal_typeResult w resBody caller typeResult))"
      unfolding eq by (simp split: prod.splits) }
  { assume "status < 200 \<or> 300 \<le> status"
    then show "fst (returned (CallAPI w now' caller url method body typeResult)) \<noteq> None"
      unfolding eq by (auto split: prod.splits) }
qed

lemma server_Unmarshal_Other:
  "Unmarshal_typeResult (server st b t) b caller (Other x) =
     (case t of None \<Rightarrow> (Some ''invalid JSON'', caller, Other x) | Some j \<Rightarrow> (None, caller, Other x))"
  by (simp add: Unmarshal_typeResult_def json_Unmarshal_def server_parse server_decode
      split: option.splits)

lemma server_CallApi_sent:
  "sent (CallApi (server st b t :: ('b, 'r) world) now caller url method None typeResult)
     = [CallApi_request (server st b t :: ('b, 'r) world) now caller (Url caller @ url) method []]"
  by (rule CallApi_sent_eq) (simp_all add: server_NewRequest)

lemma server_CallAPI_sent:
  "sent (CallAPI (server st b t :: ('b, 'r) world) now caller url method None typeResult)
     = [CallAPI_request (server st b t :: ('b, 'r) world) now caller (Url caller @ url) method []]"
  by (rule CallAPI_sent_eq) (simp_all add: server_NewRequest)

text \<open>
  \<open>CallApi_classification\<close> at three servers: one answers 200 with an empty body while a
  shape is requested, one answers 204 with the body \<^verbatim>\<open>{}\<close> that decodes into the shape,
  one answers 404 with the well-formed body \<^verbatim>\<open>{}\<close>.
\<close>

theorem CallApi_classification_witness:
  "fst (returned (CallApi (server 200 [] None :: (unit, unit) world) 0 example_caller
          ''/me'' ''GET'' None (Other ()))) = None
   \<and> fst (returned (CallApi (server 204 ''{}'' (Some (JObj [])) :: (unit, unit) world) 0
          example_caller ''/me'' ''GET'' None (Other ()))) = None
   \<and> fst (returned (CallApi (server 404 ''{}'' (Some (JObj [])) :: (unit, unit) world) 0
          example_caller ''/me'' ''GET'' None (Other ()))) \<noteq> None
   \<and> fst (returned (CallAPI (server 200 [] None :: (unit, unit) world) 0 example_caller
          ''/me'' ''GET'' None (Other ()))) = None
   \<and> fst (returned (CallAPI (server 204 ''{}'' (Some (JObj [])) :: (unit, unit) world) 0
          example_caller ''/me'' ''GET'' None (Other ()))) = None
   \<and> fst (returned (CallAPI (server 404 ''{}'' (Some (JObj [])) :: (unit, unit) world) 0
          example_caller ''/me'' ''GET'' None (Other ()))) \<noteq> None"
proof -
  let ?A = "server 200 [] None :: (unit, unit) world"
  let ?B = "server 204 ''{}'' (Some (JObj [])) :: (unit, unit) world"
  let ?C = "server 404 ''{}'' (Some (JObj [])) :: (unit, unit) world"
  let ?u = "Url example_caller @ ''/me''"
  note a = CallApi_classification [of ?A 0 example_caller "''/me''" "''GET''" None "Other ()"
      "CallApi_request ?A 0 example_caller ?u ''GET'' []" 200 "[]" 0
      "CallAPI_request ?A 0 example_caller ?u ''GET'' []"]
  note b = CallApi_classification [of ?B 0 example_caller "''/me''" "''GET''" None "Other ()"
      "CallApi_request ?B 0 example_caller ?u ''GET'' []" 204 "''{}''" 0
      "CallAPI_request ?B 0 example_caller ?u ''GET'' []"]
  note c = CallApi_classification [of ?C 0 example_caller "''/me''" "''GET''" None "Other ()"
      "CallApi_request ?C 0 example_caller ?u ''GET'' []" 404 "''{}''" 0
      "CallAPI_request ?C 0 example_caller ?u ''GET'' []"]
  from a have a1: "fst (returned (CallApi ?A 0 example_caller ''/me'' ''GET'' None (Other ()))) = None"
    and a2: "fst (returned (CallAPI ?A 0 example_caller ''/me'' ''GET'' None (Other ()))) = None"
    by (simp_all add: server_CallApi_sent server_CallAPI_sent server_Do_ReadAll)
  from b have b1: "fst (returned (CallApi ?B 0 example_caller ''/me'' ''GET'' None (Other ()))) = None"
    and b2: "fst (returned (CallAPI ?B 0 example_caller ''/me'' ''GET'' None (Other ()))) = None"
    by (simp_all add: server_CallApi_sent server_CallAPI_sent server_Do_ReadAll
        server_Unmarshal_Other)
  from c have c1: "fst (returned (CallApi ?C 0 example_caller ''/me'' ''GET'' None (Other ()))) \<noteq> None"
    and c2: "fst (returned (CallAPI ?C 0 example_caller ''/me'' ''GET'' None (Other ()))) \<noteq> None"
    by (simp_all add: server_CallApi_sent server_CallAPI_sent server_Do_ReadAll)
  from a1 a2 b1 b2 c1 c2 show ?thesis by simp
qed

text \<open>
  Claim C5 as stated fails for a response with a status in [200,300) that does return an
  error: the server answers 200 with the body \<^verbatim>\<open>{\<close>, which is not valid JSON, and a
  response shape is requested. Both versions return the error of the decoder.
\<close>

theorem CallApi_success_status_counterexample:
  "fst (returned (CallApi (server 200 ''{'' None :: (unit, unit) world) 0 example_caller
          ''/me'' ''GET'' None (Other ()))) = Some (NewError ''invalid JSON'' 500)
   \<and> fst (returned (CallAPI (server 200 ''{'' None :: (unit, unit) world) 0 example_caller
          ''/me'' ''GET'' None (Other ()))) = Some (LibError ''invalid JSON'')"
proof -
  let ?A = "server 200 ''{'' None :: (unit, unit) world"
  have "CallApi ?A 0 example_caller ''/me'' ''GET'' None (Other ()) =
      \<lparr>returned = (Some (NewError ''invalid JSON'' 500), Other ()), session = example_caller,
       sent = [CallApi_request ?A 0 example_caller (Url example_caller @ ''/me'') ''GET'' []]\<rparr>"
    by (simp add: CallApi_answered [OF server_CallApi_sent server_Do_ReadAll]
        server_Unmarshal_Other)
  moreover have "CallAPI ?A 0 example_caller ''/me'' ''GET'' None (Other ()) =
      \<lparr>returned = (Some (LibError ''invalid JSON''), Other ()), session = example_caller,
       sent = [CallAPI_request ?A 0 example_caller (Url example_caller @ ''/me'') ''GET'' []]\<rparr>"
    by (simp add: CallAPI_answered [OF server_CallAPI_sent server_Do_ReadAll]
        server_Unmarshal_Other)
  ultimately show ?thesis by simp
qed

section \<open>Decoding the example bodies\<close>

lemmas decode_eval =
  decode_struct_def EqualFold_def toLower_def field_string_def field_int_def
  into_string_def into_int_def

lemma decode_error_tree:
  "decode_struct ApiOvhError_set error_tree x = (None, x\<lparr>Message := ''Not found'', Code := 400\<rparr>)"
  by (simp add: error_tree_def ApiOvhError_set_def decode_eval)

lemma decode_grant_tree:
  "decode_struct GetCKResponse_set grant_tree new_GetCKResponse =
     (None, \<lparr>ck_ConsumerKey = ''abc'', Status = [],
             ValidationUrl = ''https://eu.api.ovh.com/auth/?credentialToken=xyz''\<rparr>)"
  by (simp add: grant_tree_def GetCKResponse_set_def new_GetCKResponse_def decode_eval)

lemma decode_grant_tree_part0:
  "decode_struct GetCKResponse_set_part0 grant_tree new_GetCKResponse =
     (None, \<lparr>ck_ConsumerKey = ''abc'', Status = ''pendingValidation'',
             ValidationUrl = ''https://eu.api.ovh.com/auth/?credentialToken=xyz''\<rparr>)"
  by (simp add: grant_tree_def GetCKResponse_set_part0_def new_GetCKResponse_def decode_eval)

lemma decode_session_tree:
  "decode_struct Caller_set session_tree x = (None, x\<lparr>ConsumerKey := ''other''\<rparr>)"
  by (simp add: session_tree_def Caller_set_def decode_eval)

section \<open>The consumer key request, once the transport has answered\<close>

lemma Sprintf_credential_url: "Sprintf ''%s/auth/credential'' [ArgS u] = u @ ''/auth/credential''"
  by simp

lemma GetConsumerKey_sent_eq:
  assumes "json_Marshal w ckParams = Inr params"
    and "http_NewRequest w ''POST'' (Url caller @ ''/auth/credential'') = None"
  shows "sent (GetConsumerKey w caller ckParams) =
     [\<lparr>req_Method = ''POST'', req_URL = Url caller @ ''/auth/credential'',
       req_Header =
         Header_Add ''X-OVH-Application'' (ApplicationKey caller)
           (Header_Add ''Content-Type'' ''application/json'' no_header),
       req_Body = params\<rparr>]"
    and "sent (GetConsumerKey_part0 w caller ckParams) =
     [\<lparr>req_Method = ''POST'', req_URL = Url caller @ ''/auth/credential'',
       req_Header =
         Header_Add ''X-OVH-Application'' (ApplicationKey caller)
           (Header_Add ''Content-Type'' ''application/json'' no_header),
       req_Body = params\<rparr>]"
  using assms
  by (simp_all add: GetConsumerKey_def GetConsumerKey_part0_def Sprintf_credential_url Let_def
      split: sum.splits prod.splits option.splits)

lemma GetConsumerKey_sent:
  assumes "sent (GetConsumerKey w caller ckParams) = [r]"
  shows "\<exists>params.
           json_Marshal w ckParams = Inr params
           \<and> http_NewRequest w ''POST'' (Url caller @ ''/auth/credential'') = None"
proof (cases "json_Marshal w ckParams")
  case (Inl m)
  with assms show ?thesis by (simp add: GetConsumerKey_def)
next
  case (Inr params)
  with assms show ?thesis
    by (cases "http_NewRequest w ''POST'' (Url caller @ ''/auth/credential'')")
       (simp_all add: GetConsumerKey_def Sprintf_credential_url)
qed

lemma GetConsumerKey_part0_sent:
  assumes "sent (GetConsumerKey_part0 w caller ckParams) = [r]"
  shows "\<exists>params.
           json_Marshal w ckParams = Inr params
           \<and> http_NewRequest w ''POST'' (Url caller @ ''/auth/credential'') = None"
proof (cases "json_Marshal w ckParams")
  case (Inl m)
  with assms show ?thesis by (simp add: GetConsumerKey_part0_def)
next
  case (Inr params)
  with assms show ?thesis
    by (cases "http_NewRequest w ''POST'' (Url caller @ ''/auth/credential'')")
       (simp_all add: GetConsumerKey_part0_def Sprintf_credential_url)
qed

lemma GetConsumerKey_answered:
  assumes "sent (GetConsumerKey w caller ckParams) = [r]"
    and "Do_ReadAll w r = Inr (status, body)"
  shows "GetConsumerKey w caller ckParams =
     (if status = 200 then
        (case json_Unmarshal (json_parse w) (decode_struct GetCKResponse_set) body
                new_GetCKResponse of
           (Some m, askCK) \<Rightarrow>
             \<lparr>returned = Inl (NewError m 500), session = caller, sent = [r]\<rparr>
         | (None, askCK) \<Rightarrow>
             \<lparr>returned = Inr askCK, session = caller\<lparr>ConsumerKey := ck_ConsumerKey askCK\<rparr>,
              sent = [r]\<rparr>)
      else
        (case json_Unmarshal (json_parse w) (decode_struct ApiOvhError_set) body
                new_ApiOvhError of
           (Some m, apiError) \<Rightarrow>
             \<lparr>returned = Inl (NewError m 500), session = caller, sent = [r]\<rparr>
         | (None, apiError) \<Rightarrow>
             \<lparr>returned = Inl (ApiError (apiError\<lparr>Code := status\<rparr>)), session = caller,
              sent = [r]\<rparr>))"
proof -
  from GetConsumerKey_sent [OF assms(1)] obtain params where
    m: "json_Marshal w ckParams = Inr params"
    and n: "http_NewRequest w ''POST'' (Url caller @ ''/auth/credential'') = None"
    by blast
  from assms(1) GetConsumerKey_sent_eq(1) [OF m n] have r:
    "r = \<lparr>req_Method = ''POST'', req_URL = Url caller @ ''/auth/credential'',
       req_Header =
         Header_Add ''X-OVH-Application'' (ApplicationKey caller)
           (Header_Add ''Content-Type'' ''application/json'' no_header),
       req_Body = params\<rparr>"
    by simp
  from assms(2) have d: "Do_ReadAll w \<lparr>req_Method = ''POST'',
       req_URL = Url caller @ ''/auth/credential'',
       req_Header =
         Header_Add ''X-OVH-Application'' (ApplicationKey caller)
           (Header_Add ''Content-Type'' ''application/json'' no_header),
       req_Body = params\<rparr> = Inr (status, body)"
    by (simp add: r)
  show ?thesis
    unfolding r
    by (simp add: GetConsumerKey_def Sprintf_credential_url m n d Let_def
        split: prod.splits option.splits)
qed

lemma GetConsumerKey_part0_answered:
  assumes "sent (GetConsumerKey_part0 w caller ckParams) = [r]"
    and "Do_ReadAll w r = Inr (status, body)"
  shows "GetConsumerKey_part0 w caller ckParams =
     (if status = 200 then
        (case json_Unmarshal (json_parse w) (decode_struct GetCKResponse_set_part0) body
                new_GetCKResponse of
           (Some m, askCK) \<Rightarrow>
             \<lparr>returned = Inl (LibError m), session = caller, sent = [r]\<rparr>
         | (None, askCK) \<Rightarrow>
             \<lparr>returned = Inr askCK, session = caller\<lparr>ConsumerKey := ck_ConsumerKey askCK\<rparr>,
              sent = [r]\<rparr>)
      else
        (case json_Unmarshal (json_parse w) (decode_struct ApiOvhError_set) body
                (new_ApiOvhError\<lparr>Code := status\<rparr>) of
           (Some m, apiError) \<Rightarrow>
             \<lparr>returned = Inl (LibError m), session = caller, sent = [r]\<rparr>
         | (None, apiError) \<Rightarrow>
             \<lparr>returned = Inl (ApiError apiError), session = caller, sent = [r]\<rparr>))"
proof -
  from GetConsumerKey_part0_sent [OF assms(1)] obtain params where
    m: "json_Marshal w ckParams = Inr params"
    and n: "http_NewRequest w ''POST'' (Url caller @ ''/auth/credential'') = None"
    by blast
  from assms(1) GetConsumerKey_sent_eq(2) [OF m n] have r:
    "r = \<lparr>req_Method = ''POST'', req_URL = Url caller @ ''/auth/credential'',
       req_Header =
         Header_Add ''X-OVH-Application'' (ApplicationKey caller)
           (Header_Add ''Content-Type'' ''application/json'' no_header),
       req_Body = params\<rparr>"
    by simp
  from assms(2) have d: "Do_ReadAll w \<lparr>req_Method = ''POST'',
       req_URL = Url caller @ ''/auth/credential'',
       req_Header =
         Header_Add ''X-OVH-Application'' (ApplicationKey caller)
           (Header_Add ''Content-Type'' ''application/json'' no_header),
       req_Body = params\<rparr> = Inr (status, body)"
    by (simp add: r)
  show ?thesis
    unfolding r
    by (simp add: GetConsumerKey_part0_def Sprintf_credential_url m n d Let_def
        split: prod.splits option.splits)
qed

section \<open>The status code of an ApiOvhError\<close>

text \<open>
  In \<^verbatim>\<open>caller.go\<close> the code of an \<^verbatim>\<open>ApiOvhError\<close> that \<^verbatim>\<open>CallApi\<close> or
  \<^verbatim>\<open>GetConsumerKey\<close> returns is the status of the response, whatever the body says:
  \<^verbatim>\<open>apiError.Code = result.StatusCode\<close> comes after the decoding.
\<close>

lemma CallApi_ApiError_Code:
  assumes "sent (CallApi w now caller url method body typeResult) = [r]"
    and "Do_ReadAll w r = Inr (status, resBody)"
    and "fst (returned (CallApi w now caller url method body typeResult)) = Some (ApiError e)"
  shows "Code e = status"
  using assms(3) unfolding CallApi_answered [OF assms(1,2)]
  by (auto split: if_splits prod.splits option.splits)

lemma GetConsumerKey_ApiError_Code:
  assumes "sent (GetConsumerKey w caller ckParams) = [r]"
    and "Do_ReadAll w r = Inr (status, body)"
    and "returned (GetConsumerKey w caller ckParams) = Inl (ApiError e)"
  shows "Code e = status"
  using assms(3) unfolding GetConsumerKey_answered [OF assms(1,2)]
  by (auto split: if_splits prod.splits option.splits)

lemma server_GetConsumerKey_sent:
  "\<exists>r. sent (GetConsumerKey (server st b t :: (GetCKParams option, 'r) world) caller ckParams) = [r]"
  "\<exists>r. sent (GetConsumerKey_part0 (server st b t :: (GetCKParams option, 'r) world) caller ckParams) = [r]"
  by (simp_all add: GetConsumerKey_sent_eq [OF server_Marshal server_NewRequest])

lemma server_Unmarshal:
  "json_Unmarshal (json_parse (server st b (Some j))) decode b x = decode j x"
  by (simp add: json_Unmarshal_def server_parse)

text \<open>
  Claim C2 at a response with the status 404 and the body
  \<^verbatim>\<open>{"message":"Not found","code":400}\<close>. In \<^verbatim>\<open>part_000\<close> the error is made with
  the status as its code \<^emph>\<open>before\<close> the body is decoded into it, so the code of the body
  replaces the status: \<^verbatim>\<open>CallAPI\<close> and \<^verbatim>\<open>GetConsumerKey\<close> return an error with
  the code 400. \<^verbatim>\<open>CallApi\<close> of \<^verbatim>\<open>caller.go\<close> returns the code 404.
\<close>

theorem CallAPI_code_taken_from_body:
  "fst (returned (CallAPI (server 404 error_body (Some error_tree) :: (unit, unit) world) 0
          example_caller ''/me'' ''GET'' None NoTarget))
     = Some (ApiError \<lparr>Message = ''Not found'', Code = 400, Tracer = []\<rparr>)
   \<and> returned (GetConsumerKey_part0
          (server 404 error_body (Some error_tree) :: (GetCKParams option, unit) world)
          example_caller None)
     = Inl (ApiError \<lparr>Message = ''Not found'', Code = 400, Tracer = []\<rparr>)
   \<and> fst (returned (CallApi (server 404 error_body (Some error_tree) :: (unit, unit) world) 0
          example_caller ''/me'' ''GET'' None NoTarget))
     = Some (ApiError \<lparr>Message = ''Not found'', Code = 404, Tracer = []\<rparr>)"
proof -
  let ?W = "server 404 error_body (Some error_tree) :: (unit, unit) world"
  let ?V = "server 404 error_body (Some error_tree) :: (GetCKParams option, unit) world"
  have a: "fst (returned (CallAPI ?W 0 example_caller ''/me'' ''GET'' None NoTarget))
     = Some (ApiError \<lparr>Message = ''Not found'', Code = 400, Tracer = []\<rparr>)"
    by (simp add: CallAPI_answered [OF server_CallAPI_sent server_Do_ReadAll]
        server_Unmarshal decode_error_tree new_ApiOvhError_def)
  obtain r where r: "sent (GetConsumerKey_part0 ?V example_caller None) = [r]"
    using server_GetConsumerKey_sent(2) by blast
  have b: "returned (GetConsumerKey_part0 ?V example_caller None)
     = Inl (ApiError \<lparr>Message = ''Not found'', Code = 400, Tracer = []\<rparr>)"
    by (simp add: GetConsumerKey_part0_answered [OF r server_Do_ReadAll]
        server_Unmarshal decode_error_tree new_ApiOvhError_def)
  have c: "fst (returned (CallApi ?W 0 example_caller ''/me'' ''GET'' None NoTarget))
     = Some (ApiError \<lparr>Message = ''Not found'', Code = 404, Tracer = []\<rparr>)"
    by (simp add: CallApi_answered [OF server_CallApi_sent server_Do_ReadAll]
        server_Unmarshal decode_error_tree new_ApiOvhError_def)
  from a b c show ?thesis by simp
qed

section \<open>The grant of a consumer key\<close>

lemma decode_grant:
  "decode_struct GetCKResponse_set_part0
     (JObj [(''consumerKey'', JStr k), (''state'', JStr s), (''validationUrl'', JStr u)])
     new_GetCKResponse
   = (None, \<lparr>ck_ConsumerKey = k, Status = s, ValidationUrl = u\<rparr>)"
  "decode_struct GetCKResponse_set
     (JObj [(''consumerKey'', JStr k), (''state'', JStr s), (''validationUrl'', JStr u)])
     new_GetCKResponse
   = (None, \<lparr>ck_ConsumerKey = k, Status = [], ValidationUrl = u\<rparr>)"
  by (simp_all add: GetCKResponse_set_part0_def GetCKResponse_set_def new_GetCKResponse_def
      decode_eval)

text \<open>
  In \<^verbatim>\<open>part_000\<close>, a response with the status 200 whose body is the object with the
  keys \<^verbatim>\<open>consumerKey\<close>, \<^verbatim>\<open>state\<close> and \<^verbatim>\<open>validationUrl\<close> stores the consumer key
  in the caller and returns the three values.
\<close>

lemma GetConsumerKey_part0_grant:
  assumes "sent (GetConsumerKey_part0 w caller ckParams) = [r]"
    and "Do_ReadAll w r = Inr (200, body)"
    and "json_parse w body =
           Inr (JObj [(''consumerKey'', JStr k), (''state'', JStr s), (''validationUrl'', JStr u)])"
  shows "returned (GetConsumerKey_part0 w caller ckParams) =
           Inr \<lparr>ck_ConsumerKey = k, Status = s, ValidationUrl = u\<rparr>
         \<and> session (GetConsumerKey_part0 w caller ckParams) = caller\<lparr>ConsumerKey := k\<rparr>"
  unfolding GetConsumerKey_part0_answered [OF assms(1,2)]
  by (simp add: json_Unmarshal_def assms(3) decode_grant)

text \<open>
  In \<^verbatim>\<open>caller.go\<close> the field \<^verbatim>\<open>Status\<close> has no tag and the key \<^verbatim>\<open>state\<close> does not
  name it: the status of the grant stays empty.
\<close>

lemma GetConsumerKey_grant:
  assumes "sent (GetConsumerKey w caller ckParams) = [r]"
    and "Do_ReadAll w r = Inr (200, body)"
    and "json_parse w body =
           Inr (JObj [(''consumerKey'', JStr k), (''state'', JStr s), (''validationUrl'', JStr u)])"
  shows "returned (GetConsumerKey w caller ckParams) =
           Inr \<lparr>ck_ConsumerKey = k, Status = [], ValidationUrl = u\<rparr>
         \<and> session (GetConsumerKey w caller ckParams) = caller\<lparr>ConsumerKey := k\<rparr>"
  unfolding GetConsumerKey_answered [OF assms(1,2)]
  by (simp add: json_Unmarshal_def assms(3) decode_grant)

text \<open>
  Claim C4 at the request of the test (one rule, \<^verbatim>\<open>GET\<close> on \<^verbatim>\<open>/me\<close>) and a response
  with the status 200 and the body
  \<^verbatim>\<open>{"consumerKey":"abc","state":"pendingValidation","validationUrl":"https://eu.api.ovh.com/auth/?credentialToken=xyz"}\<close>.
  \<^verbatim>\<open>GetConsumerKey\<close> of \<^verbatim>\<open>caller.go\<close> stores \<^verbatim>\<open>abc\<close> in the caller and returns the
  consumer key and the validation URL, but an empty status;
  \<^verbatim>\<open>GetConsumerKey\<close> of \<^verbatim>\<open>part_000\<close> returns the status \<^verbatim>\<open>pendingValidation\<close>.
\<close>

theorem GetConsumerKey_status_left_empty:
  "returned (GetConsumerKey (server 200 grant_body (Some grant_tree) :: (GetCKParams option, unit) world)
       example_caller
       (Some \<lparr>AccessRules = Some [Some \<lparr>Method = ''GET'', Path = ''/me''\<rparr>], Redirection = []\<rparr>))
     = Inr \<lparr>ck_ConsumerKey = ''abc'', Status = [],
            ValidationUrl = ''https://eu.api.ovh.com/auth/?credentialToken=xyz''\<rparr>
   \<and> ConsumerKey (session (GetConsumerKey
       (server 200 grant_body (Some grant_tree) :: (GetCKParams option, unit) world)
       example_caller
       (Some \<lparr>AccessRules = Some [Some \<lparr>Method = ''GET'', Path = ''/me''\<rparr>], Redirection = []\<rparr>)))
     = ''abc''
   \<and> returned (GetConsumerKey_part0
       (server 200 grant_body (Some grant_tree) :: (GetCKParams option, unit) world)
       example_caller
       (Some \<lparr>AccessRules = Some [Some \<lparr>Method = ''GET'', Path = ''/me''\<rparr>], Redirection = []\<rparr>))
     = Inr \<lparr>ck_ConsumerKey = ''abc'', Status = ''pendingValidation'',
            ValidationUrl = ''https://eu.api.ovh.com/auth/?credentialToken=xyz''\<rparr>"
proof -
  let ?V = "server 200 grant_body (Some grant_tree) :: (GetCKParams option, unit) world"
  let ?p = "Some \<lparr>AccessRules = Some [Some \<lparr>Method = ''GET'', Path = ''/me''\<rparr>], Redirection = []\<rparr>"
  have t: "json_parse ?V grant_body =
      Inr (JObj [(''consumerKey'', JStr ''abc''), (''state'', JStr ''pendingValidation''),
           (''validationUrl'', JStr ''https://eu.api.ovh.com/auth/?credentialToken=xyz'')])"
    by (simp add: server_parse grant_tree_def)
  obtain r where r: "sent (GetConsumerKey ?V example_caller ?p) = [r]"
    using server_GetConsumerKey_sent(1) by blast
  obtain r' where r': "sent (GetConsumerKey_part0 ?V example_caller ?p) = [r']"
    using server_GetConsumerKey_sent(2) by blast
  from GetConsumerKey_grant [OF r server_Do_ReadAll t]
    GetConsumerKey_part0_grant [OF r' server_Do_ReadAll t]
  show ?thesis by simp
qed

section \<open>What the operations change in the session\<close>

lemma Unmarshal_typeResult_session:
  "\<not> reaches_session typeResult \<Longrightarrow>
     Unmarshal_typeResult w resBody caller typeResult = (e, caller', t') \<Longrightarrow> caller' = caller"
  by (cases typeResult) (auto simp: Unmarshal_typeResult_def split: sum.splits prod.splits)

lemma CallApi_session:
  assumes "\<not> reaches_session typeResult"
  shows "session (CallApi w now caller url method body typeResult) = caller"
proof (cases "case body of None \<Rightarrow> Inr [] | Some b \<Rightarrow> json_Marshal w b")
  case (Inl m)
  then show ?thesis by (simp add: CallApi_def)
next
  case (Inr params)
  note m = this
  show ?thesis
  proof (cases "http_NewRequest w method (Url caller @ url)")
    case (Some e)
    with m show ?thesis by (simp add: CallApi_def Sprintf_ss)
  next
    case None
    note s = CallApi_sent_eq [OF m None, of now typeResult]
    show ?thesis
    proof (cases "Do_ReadAll w (CallApi_request w now caller (Url caller @ url) method params)")
      case (Inl e)
      with m None show ?thesis by (simp add: CallApi_def Sprintf_ss Let_def)
    next
      case (Inr a)
      then obtain status resBody where
        d: "Do_ReadAll w (CallApi_request w now caller (Url caller @ url) method params)
              = Inr (status, resBody)"
        by (cases a) simp
      show ?thesis
        unfolding CallApi_answered [OF s d]
        using assms by (auto dest: Unmarshal_typeResult_session split: prod.splits)
    qed
  qed
qed

lemma CallAPI_session:
  assumes "\<not> reaches_session typeResult"
  shows "session (CallAPI w now caller url method body typeResult) = caller"
proof (cases "case body of None \<Rightarrow> Inr [] | Some b \<Rightarrow> json_Marshal w b")
  case (Inl m)
  then show ?thesis by (simp add: CallAPI_def)
next
  case (Inr params)
  note m = this
  show ?thesis
  proof (cases "http_NewRequest w method (Url caller @ url)")
    case (Some e)
    with m show ?thesis by (simp add: CallAPI_def)
  next
    case None
    note s = CallAPI_sent_eq [OF m None, of now typeResult]
    show ?thesis
    proof (cases "Do_ReadAll w (CallAPI_request w now caller (Url caller @ url) method params)")
      case (Inl e)
      with m None show ?thesis by (simp add: CallAPI_def Let_def)
    next
      case (Inr a)
      then obtain status resBody where
        d: "Do_ReadAll w (CallAPI_request w now caller (Url caller @ url) method params)
              = Inr (status, resBody)"
        by (cases a) simp
      show ?thesis
        unfolding CallAPI_answered [OF s d]
        using assms by (auto dest: Unmarshal_typeResult_session split: prod.splits)
    qed
  qed
qed

lemma Time_session: "session (Time w caller) = caller" "session (Time_part0 w caller) = caller"
  by (simp_all add: Time_def Time_part0_def Let_def split: option.splits)

lemma GetConsumerKey_session:
  "session (GetConsumerKey w caller ckParams)\<lparr>ConsumerKey := ConsumerKey caller\<rparr> = caller"
proof (cases "json_Marshal w ckParams")
  case (Inl m)
  then show ?thesis by (simp add: GetConsumerKey_def)
next
  case (Inr params)
  note m = this
  show ?thesis
  proof (cases "http_NewRequest w ''POST'' (Url caller @ ''/auth/credential'')")
    case (Some e)
    with m show ?thesis by (simp add: GetConsumerKey_def Sprintf_credential_url)
  next
    case None
    note s = GetConsumerKey_sent_eq(1) [OF m None]
    let ?r = "\<lparr>req_Method = ''POST'', req_URL = Url caller @ ''/auth/credential'',
       req_Header =
         Header_Add ''X-OVH-Application'' (ApplicationKey caller)
           (Header_Add ''Content-Type'' ''application/json'' no_header),
       req_Body = params\<rparr>"
    show ?thesis
    proof (cases "Do_ReadAll w ?r")
      case (Inl e)
      with m None show ?thesis
        by (simp add: GetConsumerKey_def Sprintf_credential_url Let_def)
    next
      case (Inr a)
      then obtain status body where d: "Do_ReadAll w ?r = Inr (status, body)"
        by (cases a) simp
      show ?thesis
        unfolding GetConsumerKey_answered [OF s d]
        by (simp split: prod.splits option.splits)
    qed
  qed
qed

lemma GetConsumerKey_part0_session:
  "session (GetConsumerKey_part0 w caller ckParams)\<lparr>ConsumerKey := ConsumerKey caller\<rparr> = caller"
proof (cases "json_Marshal w ckParams")
  case (Inl m)
  then show ?thesis by (simp add: GetConsumerKey_part0_def)
next
  case (Inr params)
  note m = this
  show ?thesis
  proof (cases "http_NewRequest w ''POST'' (Url caller @ ''/auth/credential'')")
    case (Some e)
    with m show ?thesis by (simp add: GetConsumerKey_part0_def Sprintf_credential_url)
  next
    case None
    note s = GetConsumerKey_sent_eq(2) [OF m None]
    let ?r = "\<lparr>req_Method = ''POST'', req_URL = Url caller @ ''/auth/credential'',
       req_Header =
         Header_Add ''X-OVH-Application'' (ApplicationKey caller)
           (Header_Add ''Content-Type'' ''application/json'' no_header),
       req_Body = params\<rparr>"
    show ?thesis
    proof (cases "Do_ReadAll w ?r")
      case (Inl e)
      with m None show ?thesis
        by (simp add: GetConsumerKey_part0_def Sprintf_credential_url Let_def)
    next
      case (Inr a)
      then obtain status body where d: "Do_ReadAll w ?r = Inr (status, body)"
        by (cases a) simp
      show ?thesis
        unfolding GetConsumerKey_part0_answered [OF s d]
        by (simp split: prod.splits option.splits)
    qed
  qed
qed

text \<open>
  Through the pointer to the session the dispatcher can change the exported fields, but
  never \<^verbatim>\<open>delay\<close>, which no JSON key names.
\<close>

lemma decode_object_Caller_delay:
  "decode_object Caller_set kvs c = (e, c') \<Longrightarrow> delay c' = delay c"
proof (induction kvs arbitrary: c e c')
  case Nil
  then show ?case by simp
next
  case (Cons kv kvs)
  obtain k v where kv: "kv = (k, v)" by (cases kv)
  obtain e1 c1 where s: "Caller_set k v c = (e1, c1)" by (cases "Caller_set k v c")
  obtain e2 c2 where d: "decode_object Caller_set kvs c1 = (e2, c2)"
    by (cases "decode_object Caller_set kvs c1")
  from s have "delay c1 = delay c"
    by (auto simp: Caller_set_def field_string_def split: if_splits prod.splits)
  moreover from Cons.IH [OF d] have "delay c2 = delay c1" .
  moreover from Cons.prems kv s d have "c' = c2" by simp
  ultimately show ?case by simp
qed

lemma Unmarshal_Self_delay:
  "Unmarshal_typeResult w resBody caller Self = (e, caller', t') \<Longrightarrow> delay caller' = delay caller"
  by (auto simp: Unmarshal_typeResult_def json_Unmarshal_def decode_struct_def
      dest: decode_object_Caller_delay split: sum.splits prod.splits json.splits)

text \<open>
  Claim C9, as amended. In both versions \<^verbatim>\<open>Time\<close> and \<^verbatim>\<open>Ping\<close> leave every field of
  the session (application key, application secret, consumer key, URL, delay) as it was,
  whether they succeed or fail, and so does the dispatcher \<^emph>\<open>when nothing of the session
  can be reached from the response destination \<^verbatim>\<open>typeResult\<close>\<close>: the destination is
  \<^verbatim>\<open>nil\<close>, or it is a value that is not the pointer to the session, is not a pointer to
  one of its fields, holds no such pointer and has no decoding method that writes to the
  session. \<^verbatim>\<open>GetConsumerKey\<close> changes at most the consumer key. (The encoder of the
  request body and the transport are functions: they read and write nothing of the
  session.)
\<close>

theorem session_unchanged:
  "session (Time w caller) = caller
   \<and> session (Ping w caller) = caller
   \<and> session (Time_part0 w caller) = caller
   \<and> session (Ping_part0 w caller) = caller
   \<and> (\<not> reaches_session typeResult \<longrightarrow>
        session (CallApi w now caller url method body typeResult) = caller)
   \<and> (\<not> reaches_session typeResult \<longrightarrow>
        session (CallAPI w now' caller url method body typeResult) = caller)
   \<and> session (GetConsumerKey v caller ckParams)\<lparr>ConsumerKey := ConsumerKey caller\<rparr> = caller
   \<and> session (GetConsumerKey_part0 v caller ckParams)\<lparr>ConsumerKey := ConsumerKey caller\<rparr>
       = caller"
  by (simp add: Time_session Ping_def Ping_part0_def Let_def CallApi_session CallAPI_session
      GetConsumerKey_session GetConsumerKey_part0_session)

text \<open>
  \<open>session_unchanged\<close> at two dispatcher calls. The server answers 200 with the body
  \<^verbatim>\<open>{"ConsumerKey":"other"}\<close>; with a destination that does not lead into the session,
  and with no destination, the session stays as it was.
\<close>

theorem session_unchanged_witness:
  "\<not> reaches_session (Other () :: unit target)
   \<and> session (CallApi (server 200 session_body (Some session_tree) :: (unit, unit) world) 0
         example_caller ''/me'' ''GET'' None (Other ())) = example_caller
   \<and> session (CallAPI (server 200 session_body (Some session_tree) :: (unit, unit) world) 0
         example_caller ''/me'' ''GET'' None (Other ())) = example_caller
   \<and> \<not> reaches_session (NoTarget :: unit target)
   \<and> session (CallApi (server 200 session_body (Some session_tree) :: (unit, unit) world) 0
         example_caller ''/me'' ''GET'' None NoTarget) = example_caller
   \<and> session (CallAPI (server 200 session_body (Some session_tree) :: (unit, unit) world) 0
         example_caller ''/me'' ''GET'' None NoTarget) = example_caller"
  using session_unchanged [of "server 200 session_body (Some session_tree) :: (unit, unit) world"
      example_caller "Other ()" 0 "''/me''" "''GET''" "None :: unit option" 0
      "server 200 session_body (Some session_tree) :: (GetCKParams option, unit) world" None]
    session_unchanged [of "server 200 session_body (Some session_tree) :: (unit, unit) world"
      example_caller NoTarget 0 "''/me''" "''GET''" "None :: unit option" 0
      "server 200 session_body (Some session_tree) :: (GetCKParams option, unit) world" None]
  by simp

text \<open>
  Claim C9 as stated fails when the response destination leads into the session. With
  the session itself as the destination, \<^verbatim>\<open>caller.CallApi("/me", "GET", nil, caller)\<close>,
  and a server that answers 200 with the body \<^verbatim>\<open>{"ConsumerKey":"other"}\<close>,
  \<^verbatim>\<open>json.Unmarshal(resBody, &typeResult)\<close> decodes the body into the \<^verbatim>\<open>Caller\<close>: the
  call returns no error and the consumer key of the session is \<^verbatim>\<open>other\<close>. With a pointer
  to the field as the destination,
  \<^verbatim>\<open>caller.CallApi("/me", "GET", nil, &caller.ConsumerKey)\<close>, and a server that answers
  200 with the body \<^verbatim>\<open>"other"\<close>, the same happens. Both versions behave so.
\<close>

theorem CallApi_changes_session_counterexample:
  "CallApi (server 200 session_body (Some session_tree) :: (unit, unit) world) 0
       example_caller ''/me'' ''GET'' None Self
     = \<lparr>returned = (None, Self), session = example_caller\<lparr>ConsumerKey := ''other''\<rparr>,
        sent = [CallApi_request (server 200 session_body (Some session_tree) :: (unit, unit) world)
                  0 example_caller (Url example_caller @ ''/me'') ''GET'' []]\<rparr>
   \<and> CallAPI (server 200 session_body (Some session_tree) :: (unit, unit) world) 0
       example_caller ''/me'' ''GET'' None Self
     = \<lparr>returned = (None, Self), session = example_caller\<lparr>ConsumerKey := ''other''\<rparr>,
        sent = [CallAPI_request (server 200 session_body (Some session_tree) :: (unit, unit) world)
                  0 example_caller (Url example_caller @ ''/me'') ''GET'' []]\<rparr>
   \<and> CallApi (server 200 token_body (Some token_tree) :: (unit, unit) world) 0
       example_caller ''/me'' ''GET'' None (FieldPtr FieldConsumerKey)
     = \<lparr>returned = (None, FieldPtr FieldConsumerKey),
        session = example_caller\<lparr>ConsumerKey := ''other''\<rparr>,
        sent = [CallApi_request (server 200 token_body (Some token_tree) :: (unit, unit) world)
                  0 example_caller (Url example_caller @ ''/me'') ''GET'' []]\<rparr>
   \<and> CallAPI (server 200 token_body (Some token_tree) :: (unit, unit) world) 0
       example_caller ''/me'' ''GET'' None (FieldPtr FieldConsumerKey)
     = \<lparr>returned = (None, FieldPtr FieldConsumerKey),
        session = example_caller\<lparr>ConsumerKey := ''other''\<rparr>,
        sent = [CallAPI_request (server 200 token_body (Some token_tree) :: (unit, unit) world)
                  0 example_caller (Url example_caller @ ''/me'') ''GET'' []]\<rparr>
   \<and> ConsumerKey example_caller = ''CK''
   \<and> example_caller\<lparr>ConsumerKey := ''other''\<rparr> \<noteq> example_caller"
proof -
  let ?W = "server 200 session_body (Some session_tree) :: (unit, unit) world"
  let ?V = "server 200 token_body (Some token_tree) :: (unit, unit) world"
  have nonempty: "session_body \<noteq> []" "token_body \<noteq> []"
    by (simp_all add: session_body_def token_body_def)
  have u: "Unmarshal_typeResult ?W session_body example_caller Self
             = (None, example_caller\<lparr>ConsumerKey := ''other''\<rparr>, Self)"
    by (simp add: Unmarshal_typeResult_def server_Unmarshal decode_session_tree)
  have u': "Unmarshal_typeResult ?V token_body example_caller (FieldPtr FieldConsumerKey)
             = (None, example_caller\<lparr>ConsumerKey := ''other''\<rparr>, FieldPtr FieldConsumerKey)"
    by (simp add: Unmarshal_typeResult_def server_Unmarshal decode_field_def token_tree_def
        field_string_def into_string_def)
  have a: "CallApi ?W 0 example_caller ''/me'' ''GET'' None Self
     = \<lparr>returned = (None, Self), session = example_caller\<lparr>ConsumerKey := ''other''\<rparr>,
        sent = [CallApi_request ?W 0 example_caller (Url example_caller @ ''/me'') ''GET'' []]\<rparr>"
    by (simp add: CallApi_answered [OF server_CallApi_sent server_Do_ReadAll] nonempty u)
  have b: "CallAPI ?W 0 example_caller ''/me'' ''GET'' None Self
     = \<lparr>returned = (None, Self), session = example_caller\<lparr>ConsumerKey := ''other''\<rparr>,
        sent = [CallAPI_request ?W 0 example_caller (Url example_caller @ ''/me'') ''GET'' []]\<rparr>"
    by (simp add: CallAPI_answered [OF server_CallAPI_sent server_Do_ReadAll] nonempty u)
  have a': "CallApi ?V 0 example_caller ''/me'' ''GET'' None (FieldPtr FieldConsumerKey)
     = \<lparr>returned = (None, FieldPtr FieldConsumerKey),
        session = example_caller\<lparr>ConsumerKey := ''other''\<rparr>,
        sent = [CallApi_request ?V 0 example_caller (Url example_caller @ ''/me'') ''GET'' []]\<rparr>"
    by (simp add: CallApi_answered [OF server_CallApi_sent server_Do_ReadAll] nonempty u')
  have b': "CallAPI ?V 0 example_caller ''/me'' ''GET'' None (FieldPtr FieldConsumerKey)
     = \<lparr>returned = (None, FieldPtr FieldConsumerKey),
        session = example_caller\<lparr>ConsumerKey := ''other''\<rparr>,
        sent = [CallAPI_request ?V 0 example_caller (Url example_caller @ ''/me'') ''GET'' []]\<rparr>"
    by (simp add: CallAPI_answered [OF server_CallAPI_sent server_Do_ReadAll] nonempty u')
  have c: "ConsumerKey example_caller = ''CK''"
    by (simp add: example_caller_def)
  have d: "example_caller\<lparr>ConsumerKey := ''other''\<rparr> \<noteq> example_caller"
    by (simp add: example_caller_def)
  from a b a' b' c d show ?thesis by blast
qed

section \<open>The requests that are sent\<close>

lemma canonical_keys:
  "CanonicalMIMEHeaderKey ''Content-Type'' = ''Content-Type''"
  "CanonicalMIMEHeaderKey ''X-OVH-Application'' = ''X-Ovh-Application''"
  "CanonicalMIMEHeaderKey ''X-Ovh-Application'' = ''X-Ovh-Application''"
  "CanonicalMIMEHeaderKey ''X-Ovh-Timestamp'' = ''X-Ovh-Timestamp''"
  "CanonicalMIMEHeaderKey ''X-Ovh-Consumer'' = ''X-Ovh-Consumer''"
  "CanonicalMIMEHeaderKey ''X-Ovh-Signature'' = ''X-Ovh-Signature''"
  by code_simp+

lemma GetConsumerKey_headers_eq:
  "Header_Add ''X-OVH-Application'' ak (Header_Add ''Content-Type'' ''application/json'' no_header)
     = no_header (''Content-Type'' := [''application/json''], ''X-Ovh-Application'' := [ak])"
  by (simp add: Header_Add_def canonical_keys no_header_def)

lemma GetConsumerKey_sent_cases:
  "sent (GetConsumerKey w caller ckParams) =
     (case json_Marshal w ckParams of
        Inl m \<Rightarrow> []
      | Inr params \<Rightarrow>
          (case http_NewRequest w ''POST'' (Url caller @ ''/auth/credential'') of
             Some m \<Rightarrow> []
           | None \<Rightarrow>
               [\<lparr>req_Method = ''POST'', req_URL = Url caller @ ''/auth/credential'',
                 req_Header = no_header (''Content-Type'' := [''application/json''],
                                         ''X-Ovh-Application'' := [ApplicationKey caller]),
                 req_Body = params\<rparr>]))"
proof (cases "json_Marshal w ckParams")
  case (Inl m)
  then show ?thesis by (simp add: GetConsumerKey_def)
next
  case (Inr params)
  note m = this
  show ?thesis
  proof (cases "http_NewRequest w ''POST'' (Url caller @ ''/auth/credential'')")
    case (Some e)
    with m show ?thesis by (simp add: GetConsumerKey_def Sprintf_credential_url)
  next
    case None
    from GetConsumerKey_sent_eq(1) [OF m None] m None show ?thesis
      by (simp add: GetConsumerKey_headers_eq)
  qed
qed

lemma GetConsumerKey_part0_sent_cases:
  "sent (GetConsumerKey_part0 w caller ckParams) =
     (case json_Marshal w ckParams of
        Inl m \<Rightarrow> []
      | Inr params \<Rightarrow>
          (case http_NewRequest w ''POST'' (Url caller @ ''/auth/credential'') of
             Some m \<Rightarrow> []
           | None \<Rightarrow>
               [\<lparr>req_Method = ''POST'', req_URL = Url caller @ ''/auth/credential'',
                 req_Header = no_header (''Content-Type'' := [''application/json''],
                                         ''X-Ovh-Application'' := [ApplicationKey caller]),
                 req_Body = params\<rparr>]))"
proof (cases "json_Marshal w ckParams")
  case (Inl m)
  then show ?thesis by (simp add: GetConsumerKey_part0_def)
next
  case (Inr params)
  note m = this
  show ?thesis
  proof (cases "http_NewRequest w ''POST'' (Url caller @ ''/auth/credential'')")
    case (Some e)
    with m show ?thesis by (simp add: GetConsumerKey_part0_def Sprintf_credential_url)
  next
    case None
    from GetConsumerKey_sent_eq(2) [OF m None] m None show ?thesis
      by (simp add: GetConsumerKey_headers_eq)
  qed
qed

lemma CallApi_sent_cases:
  "sent (CallApi w now caller url method body typeResult) =
     (case (case body of None \<Rightarrow> Inr [] | Some b \<Rightarrow> json_Marshal w b) of
        Inl m \<Rightarrow> []
      | Inr params \<Rightarrow>
          (case http_NewRequest w method (Url caller @ url) of
             Some m \<Rightarrow> []
           | None \<Rightarrow> [CallApi_request w now caller (Url caller @ url) method params]))"
proof (cases "case body of None \<Rightarrow> Inr [] | Some b \<Rightarrow> json_Marshal w b")
  case (Inl m)
  then show ?thesis by (simp add: CallApi_def)
next
  case (Inr params)
  note m = this
  show ?thesis
  proof (cases "http_NewRequest w method (Url caller @ url)")
    case (Some e)
    with m show ?thesis by (simp add: CallApi_def Sprintf_ss)
  next
    case None
    from CallApi_sent_eq [OF m None] m None show ?thesis by simp
  qed
qed

lemma CallAPI_sent_cases:
  "sent (CallAPI w now caller url method body typeResult) =
     (case (case body of None \<Rightarrow> Inr [] | Some b \<Rightarrow> json_Marshal w b) of
        Inl m \<Rightarrow> []
      | Inr params \<Rightarrow>
          (case http_NewRequest w method (Url caller @ url) of
             Some m \<Rightarrow> []
           | None \<Rightarrow> [CallAPI_request w now caller (Url caller @ url) method params]))"
proof (cases "case body of None \<Rightarrow> Inr [] | Some b \<Rightarrow> json_Marshal w b")
  case (Inl m)
  then show ?thesis by (simp add: CallAPI_def)
next
  case (Inr params)
  note m = this
  show ?thesis
  proof (cases "http_NewRequest w method (Url caller @ url)")
    case (Some e)
    with m show ?thesis by (simp add: CallAPI_def)
  next
    case None
    from CallAPI_sent_eq [OF m None] m None show ?thesis by simp
  qed
qed

section \<open>The consumer key request is not signed\<close>

text \<open>
  Claim C8. In both versions every request that \<^verbatim>\<open>GetConsumerKey\<close> hands to the
  transport carries exactly two headers, the content type and the application key: the
  header map is empty at every other key, in particular at \<^verbatim>\<open>X-Ovh-Signature\<close> and at
  \<^verbatim>\<open>X-Ovh-Consumer\<close>. No signature enters the request: the requests sent are the same
  whatever the application secret, the consumer key and the delay of the session are,
  and whatever the digest function is.
\<close>

theorem GetConsumerKey_unsigned:
  "list_all
     (\<lambda>r. req_Header r = no_header (''Content-Type'' := [''application/json''],
                                      ''X-Ovh-Application'' := [ApplicationKey caller])
          \<and> req_Header r ''X-Ovh-Signature'' = []
          \<and> req_Header r ''X-Ovh-Consumer'' = [])
     (sent (GetConsumerKey w caller ckParams))
   \<and> list_all
     (\<lambda>r. req_Header r = no_header (''Content-Type'' := [''application/json''],
                                      ''X-Ovh-Application'' := [ApplicationKey caller])
          \<and> req_Header r ''X-Ovh-Signature'' = []
          \<and> req_Header r ''X-Ovh-Consumer'' = [])
     (sent (GetConsumerKey_part0 w caller ckParams))
   \<and> sent (GetConsumerKey (w\<lparr>sha1_Sum := digest\<rparr>)
        (caller\<lparr>ApplicationSecret := secret, ConsumerKey := token, delay := d\<rparr>) ckParams)
      = sent (GetConsumerKey w caller ckParams)
   \<and> sent (GetConsumerKey_part0 (w\<lparr>sha1_Sum := digest\<rparr>)
        (caller\<lparr>ApplicationSecret := secret, ConsumerKey := token, delay := d\<rparr>) ckParams)
      = sent (GetConsumerKey_part0 w caller ckParams)"
  unfolding GetConsumerKey_sent_cases GetConsumerKey_part0_sent_cases
  by (simp add: no_header_def split: sum.splits option.splits)

text \<open>
  \<open>GetConsumerKey_unsigned\<close> at the example server: one request is sent, with the two
  headers.
\<close>

theorem GetConsumerKey_unsigned_witness:
  "map (\<lambda>r. (req_Header r ''Content-Type'', req_Header r ''X-Ovh-Application'',
              req_Header r ''X-Ovh-Signature'', req_Header r ''X-Ovh-Consumer''))
     (sent (GetConsumerKey (server 200 grant_body (Some grant_tree) :: (GetCKParams option, unit) world)
        example_caller None))
     = [([''application/json''], [''AK''], [], [])]
   \<and> map (\<lambda>r. (req_Header r ''Content-Type'', req_Header r ''X-Ovh-Application'',
              req_Header r ''X-Ovh-Signature'', req_Header r ''X-Ovh-Consumer''))
     (sent (GetConsumerKey_part0 (server 200 grant_body (Some grant_tree) :: (GetCKParams option, unit) world)
        example_caller None))
     = [([''application/json''], [''AK''], [], [])]"
proof -
  let ?V = "server 200 grant_body (Some grant_tree) :: (GetCKParams option, unit) world"
  note t = GetConsumerKey_unsigned [where caller = example_caller and w = ?V
      and ckParams = None and digest = "take 20" and secret = "''AS''" and token = "''CK''"
      and d = 0]
  obtain r where r: "sent (GetConsumerKey ?V example_caller None) = [r]"
    using server_GetConsumerKey_sent(1) by blast
  obtain r' where r': "sent (GetConsumerKey_part0 ?V example_caller None) = [r']"
    using server_GetConsumerKey_sent(2) by blast
  from t show ?thesis
    unfolding r r' by (simp add: example_caller_def no_header_def)
qed

section \<open>The headers of a signed request\<close>

lemma CallApi_request_headers:
  "req_Header (CallApi_request w now caller u method params) =
     no_header
       (''Content-Type'' := [''application/json''],
        ''X-Ovh-Timestamp'' := [FormatInt (sint (now + delay caller))],
        ''X-Ovh-Application'' := [ApplicationKey caller],
        ''X-Ovh-Consumer'' := [ConsumerKey caller],
        ''X-Ovh-Signature'' :=
          [getSignature (sha1_Sum w) caller method u params (now + delay caller)])"
  by (simp add: CallApi_request_def Header_Add_def canonical_keys no_header_def Let_def
      Sprintf_only_d Sprintf_only_s)

lemma CallAPI_request_headers:
  "req_Header (CallAPI_request w now caller u method params) =
     no_header
       (''Content-Type'' := [''application/json''],
        ''X-Ovh-Timestamp'' := [FormatInt (sint (Unix (Add now (delay caller))))],
        ''X-Ovh-Application'' := [ApplicationKey caller],
        ''X-Ovh-Consumer'' := [ConsumerKey caller],
        ''X-Ovh-Signature'' :=
          [getSignature_part0 (sha1_Sum w) caller method u params
             (Unix (Add now (delay caller)))])"
  by (simp add: CallAPI_request_def CallAPI_headers_def Header_Add_def canonical_keys
      no_header_def Let_def)

lemma request_bodies:
  "req_Body (CallApi_request w now caller u method params) = params"
  "req_Body (CallAPI_request w now' caller u method params) = params"
  by (simp_all add: CallApi_request_def CallAPI_request_def Let_def)

lemma signature_header:
  "req_Header (CallApi_request w now caller u method params) ''X-Ovh-Signature''
     = [getSignature (sha1_Sum w) caller method u params (now + delay caller)]"
  "req_Header (CallAPI_request w now' caller u method params) ''X-Ovh-Signature''
     = [getSignature_part0 (sha1_Sum w) caller method u params (Unix (Add now' (delay caller)))]"
  by (simp_all add: CallApi_request_headers CallAPI_request_headers)

lemma timestamp_header:
  "req_Header (CallApi_request w now caller u method params) ''X-Ovh-Timestamp''
     = [FormatInt (sint (now + delay caller))]"
  "req_Header (CallAPI_request w now' caller u method params) ''X-Ovh-Timestamp''
     = [FormatInt (sint (Unix (Add now' (delay caller))))]"
  by (simp_all add: CallApi_request_headers CallAPI_request_headers)

section \<open>A call without a request body\<close>

lemma inserted_segment: "p \<noteq> [] \<Longrightarrow> a @ p @ b \<noteq> a @ b"
proof
  assume "p \<noteq> []" and "a @ p @ b = a @ b"
  then have "length (a @ p @ b) = length (a @ b)" by simp
  with \<open>p \<noteq> []\<close> show False by simp
qed

lemma sig_body_segment:
  assumes "params \<noteq> []"
  shows "sig caller method u [] t \<noteq> sig caller method u params t"
    and "sig_part0 caller method u [] t \<noteq> sig_part0 caller method u params t"
proof -
  let ?a = "ApplicationSecret caller @ ''+'' @ ConsumerKey caller @ ''+'' @ method @ ''+'' @ u @ ''+''"
  let ?b = "''+'' @ FormatInt (sint t)"
  have "?a @ params @ ?b \<noteq> ?a @ ?b"
    using assms by (rule inserted_segment)
  then show "sig caller method u [] t \<noteq> sig caller method u params t"
    and "sig_part0 caller method u [] t \<noteq> sig_part0 caller method u params t"
    by (simp_all add: sig_eq sig_part0_eq)
qed

text \<open>
  Claim C7. In both versions, every request that the dispatcher hands to the transport
  for a call without a request body (\<^verbatim>\<open>body == nil\<close>) has a body of length zero, and
  its \<^verbatim>\<open>X-Ovh-Signature\<close> header is the signature computed with the empty string as
  the body segment: \<^verbatim>\<open>$1$\<close> and the encoded digest of secret, consumer key, method,
  URL, nothing, and timestamp, joined by \<^verbatim>\<open>+\<close>. A serialized body that is not empty
  (the text \<^verbatim>\<open>null\<close>, say) differs from it both as the bytes sent and in the string the
  signature is computed over.
\<close>

theorem absent_body_is_empty:
  "list_all
     (\<lambda>r. req_Body r = [] \<and> length (req_Body r) = 0
          \<and> req_Header r ''X-Ovh-Signature'' =
              [''$1$'' @ hex_EncodeToString (sha1_Sum w
                 (ApplicationSecret caller @ ''+'' @ ConsumerKey caller @ ''+'' @ method @ ''+'' @
                  (Url caller @ url) @ ''+'' @ [] @ ''+'' @ FormatInt (sint (now + delay caller))))])
     (sent (CallApi w now caller url method None typeResult))
   \<and> list_all
     (\<lambda>r. req_Body r = [] \<and> length (req_Body r) = 0
          \<and> req_Header r ''X-Ovh-Signature'' =
              [''$1$'' @ hex_EncodeToString (sha1_Sum w
                 (ApplicationSecret caller @ ''+'' @ ConsumerKey caller @ ''+'' @ method @ ''+'' @
                  (Url caller @ url) @ ''+'' @ [] @ ''+'' @
                  FormatInt (sint (Unix (Add now' (delay caller))))))])
     (sent (CallAPI w now' caller url method None typeResult))
   \<and> (params \<noteq> [] \<longrightarrow>
        req_Body (CallApi_request w now caller u method params) \<noteq> []
        \<and> req_Body (CallAPI_request w now' caller u method params) \<noteq> []
        \<and> sig caller method u [] t \<noteq> sig caller method u params t
        \<and> sig_part0 caller method u [] t \<noteq> sig_part0 caller method u params t)"
proof (intro conjI impI)
  show "list_all
     (\<lambda>r. req_Body r = [] \<and> length (req_Body r) = 0
          \<and> req_Header r ''X-Ovh-Signature'' =
              [''$1$'' @ hex_EncodeToString (sha1_Sum w
                 (ApplicationSecret caller @ ''+'' @ ConsumerKey caller @ ''+'' @ method @ ''+'' @
                  (Url caller @ url) @ ''+'' @ [] @ ''+'' @ FormatInt (sint (now + delay caller))))])
     (sent (CallApi w now caller url method None typeResult))"
    unfolding CallApi_sent_cases
    by (simp add: request_bodies signature_header getSignature_def sig_eq split: option.splits)
  show "list_all
     (\<lambda>r. req_Body r = [] \<and> length (req_Body r) = 0
          \<and> req_Header r ''X-Ovh-Signature'' =
              [''$1$'' @ hex_EncodeToString (sha1_Sum w
                 (ApplicationSecret caller @ ''+'' @ ConsumerKey caller @ ''+'' @ method @ ''+'' @
                  (Url caller @ url) @ ''+'' @ [] @ ''+'' @
                  FormatInt (sint (Unix (Add now' (delay caller))))))])
     (sent (CallAPI w now' caller url method None typeResult))"
    unfolding CallAPI_sent_cases
    by (simp add: request_bodies signature_header getSignature_part0_def sig_part0_eq
        split: option.splits)
next
  assume p: "params \<noteq> []"
  then show "req_Body (CallApi_request w now caller u method params) \<noteq> []"
    and "req_Body (CallAPI_request w now' caller u method params) \<noteq> []"
    by (simp_all add: request_bodies)
  from sig_body_segment [OF p]
  show "sig caller method u [] t \<noteq> sig caller method u params t"
    and "sig_part0 caller method u [] t \<noteq> sig_part0 caller method u params t"
    by blast+
qed

text \<open>
  \<open>absent_body_is_empty\<close> at the test's call \<^verbatim>\<open>CallApi("/me", "GET", nil, me)\<close>: one
  request is sent, with an empty body, and its signature is taken over
  \<^verbatim>\<open>AS+CK+GET+https://api.ovh.com/1.0/me++1700000000\<close>; the body \<^verbatim>\<open>null\<close> would give
  another string.
\<close>

theorem absent_body_is_empty_witness:
  "map (\<lambda>r. (req_Body r, req_Header r ''X-Ovh-Signature''))
     (sent (CallApi (server 200 [] None :: (unit, unit) world) 1700000000 example_caller
        ''/me'' ''GET'' None (Other ())))
     = [([], [''$1$'' @ hex_EncodeToString
                (take 20 ''AS+CK+GET+https://api.ovh.com/1.0/me++1700000000'')])]
   \<and> map (\<lambda>r. (req_Body r, req_Header r ''X-Ovh-Signature''))
     (sent (CallAPI (server 200 [] None :: (unit, unit) world) 1700000000000000000
        example_caller ''/me'' ''GET'' None (Other ())))
     = [([], [''$1$'' @ hex_EncodeToString
                (take 20 ''AS+CK+GET+https://api.ovh.com/1.0/me++1700000000'')])]
   \<and> ''null'' \<noteq> []
   \<and> sig example_caller ''GET'' ''https://api.ovh.com/1.0/me'' [] 1700000000
       \<noteq> sig example_caller ''GET'' ''https://api.ovh.com/1.0/me'' ''null'' 1700000000
   \<and> sig_part0 example_caller ''GET'' ''https://api.ovh.com/1.0/me'' [] 1700000000
       \<noteq> sig_part0 example_caller ''GET'' ''https://api.ovh.com/1.0/me'' ''null'' 1700000000"
proof -
  let ?W = "server 200 [] None :: (unit, unit) world"
  note t = absent_body_is_empty [of ?W example_caller "''GET''" "''/me''" 1700000000
      "Other ()" 1700000000000000000 "''null''" "''https://api.ovh.com/1.0/me''" 1700000000]
  have f: "FormatInt 1700000000 = ''1700000000''"
    by (simp add: FormatInt_def digits.simps)
  have ts: "sint (Unix (Add 1700000000000000000 (delay example_caller))) = 1700000000"
    by (simp add: Unix_def Add_def example_caller_def)
  have ts': "sint ((1700000000 :: int64) + delay example_caller) = 1700000000"
    by (simp add: example_caller_def)
  have sha: "sha1_Sum ?W = take 20"
    by (simp add: server_def)
  from t show ?thesis
    unfolding server_CallApi_sent server_CallAPI_sent ts ts' f sha
    by (simp add: example_caller_def)
qed

section \<open>The clock offset\<close>

text \<open>
  \<^verbatim>\<open>NewCaller\<close> of \<^verbatim>\<open>caller.go\<close> stores the remote time minus the local time that was
  read before the request (in 64-bit arithmetic, and as integers whenever the difference
  fits 64 bits).
\<close>

lemma NewCaller_delay:
  assumes "NewCaller w currentTime endpoint applicationKey applicationSecret consumerKey
             = Inr caller"
  shows "\<exists>url ovhTime.
           ApiUrl endpoint = Some url
           \<and> returned (Time w \<lparr>ApplicationKey = applicationKey,
                                 ApplicationSecret = applicationSecret,
                                 ConsumerKey = consumerKey, Url = url, delay = 0\<rparr>)
               = Inr ovhTime
           \<and> caller = \<lparr>ApplicationKey = applicationKey, ApplicationSecret = applicationSecret,
                        ConsumerKey = consumerKey, Url = url,
                        delay = ovhTime - currentTime\<rparr>"
  using assms
  by (auto simp: NewCaller_def Let_def split: option.splits sum.splits if_splits)

lemma int64_difference:
  fixes a b :: int64
  assumes "- (2 ^ 63) \<le> sint a - sint b" and "sint a - sint b < 2 ^ 63"
  shows "sint (a - b) = sint a - sint b"
proof -
  have "sint (a - b) = signed_take_bit 63 (sint a - sint b)"
    by (simp add: sint_word_ariths)
  with assms show ?thesis
    by (simp add: signed_take_bit_int_eq_self)
qed

text \<open>
  Every request that \<^verbatim>\<open>CallApi\<close> of \<^verbatim>\<open>caller.go\<close> sends is stamped and signed with
  the local time plus the delay of the session.
\<close>

lemma CallApi_timestamp:
  "list_all
     (\<lambda>r. req_Header r ''X-Ovh-Timestamp'' = [FormatInt (sint (now + delay caller))]
          \<and> req_Header r ''X-Ovh-Signature'' =
              [getSignature (sha1_Sum w) caller method (Url caller @ url) (req_Body r)
                 (now + delay caller)])
     (sent (CallApi w now caller url method body typeResult))"
  unfolding CallApi_sent_cases
  by (simp add: request_bodies signature_header timestamp_header split: sum.splits option.splits)

text \<open>
  Claim C1 in \<^verbatim>\<open>part_000\<close>, at a remote time of 1000 s while the local clock shows 990 s
  when \<^verbatim>\<open>NewCaller\<close> runs and 995 s when \<^verbatim>\<open>CallAPI\<close> runs. \<^verbatim>\<open>NewCaller\<close> stores
  \<^verbatim>\<open>time.Since(*ovhTime)\<close>, the local time minus the remote time: -10 s (in
  nanoseconds) and not +10 s. \<^verbatim>\<open>CallAPI\<close> adds it to the local time: the request is
  stamped 985, where local time plus remote minus local is 1005. \<^verbatim>\<open>caller.go\<close> stores
  +10 and stamps 1005.
\<close>

theorem NewCaller_part0_offset_sign:
  "NewCaller_part0 (server 200 ''1000'' None :: (unit, unit) world) 990000000000
       ''ovh-eu'' ''AK'' ''AS'' ''CK''
     = Inr (example_caller\<lparr>delay := - 10000000000\<rparr>)
   \<and> map (\<lambda>r. req_Header r ''X-Ovh-Timestamp'')
       (sent (CallAPI (server 200 [] None :: (unit, unit) world) 995000000000
          (example_caller\<lparr>delay := - 10000000000\<rparr>) ''/me'' ''GET'' None NoTarget))
     = [[''985'']]
   \<and> NewCaller (server 200 ''1000'' None :: (unit, unit) world) 990
       ''ovh-eu'' ''AK'' ''AS'' ''CK''
     = Inr (example_caller\<lparr>delay := 10\<rparr>)
   \<and> map (\<lambda>r. req_Header r ''X-Ovh-Timestamp'')
       (sent (CallApi (server 200 [] None :: (unit, unit) world) 995
          (example_caller\<lparr>delay := 10\<rparr>) ''/me'' ''GET'' None NoTarget))
     = [[''1005'']]"
proof -
  have atoi: "Atoi ''1000'' = Inr 1000"
    by (simp add: Atoi_def decimal_eval)
  have t: "returned (Time (server 200 ''1000'' None :: (unit, unit) world) c) = Inr 1000" for c
    by (simp add: Time_def server_NewRequest server_Do_ReadAll atoi Let_def)
  have t': "returned (Time_part0 (server 200 ''1000'' None :: (unit, unit) world) c)
      = Inr 1000000000000" for c
    by (simp add: Time_part0_def server_NewRequest server_Do_ReadAll atoi Let_def time_Unix_def)
  have a: "NewCaller_part0 (server 200 ''1000'' None :: (unit, unit) world) 990000000000
       ''ovh-eu'' ''AK'' ''AS'' ''CK'' = Inr (example_caller\<lparr>delay := - 10000000000\<rparr>)"
    by (simp add: NewCaller_part0_def APIURL_def t' Since_def Sub_def example_caller_def)
  have c: "NewCaller (server 200 ''1000'' None :: (unit, unit) world) 990
       ''ovh-eu'' ''AK'' ''AS'' ''CK'' = Inr (example_caller\<lparr>delay := 10\<rparr>)"
    by (simp add: NewCaller_def ApiUrl_def t example_caller_def)
  have f: "FormatInt 985 = ''985''" "FormatInt 1005 = ''1005''"
    by (simp_all add: FormatInt_def digits.simps)
  have b: "map (\<lambda>r. req_Header r ''X-Ovh-Timestamp'')
       (sent (CallAPI (server 200 [] None :: (unit, unit) world) 995000000000
          (example_caller\<lparr>delay := - 10000000000\<rparr>) ''/me'' ''GET'' None NoTarget))
     = [[''985'']]"
    by (simp add: server_CallAPI_sent timestamp_header Unix_def Add_def f)
  have d: "map (\<lambda>r. req_Header r ''X-Ovh-Timestamp'')
       (sent (CallApi (server 200 [] None :: (unit, unit) world) 995
          (example_caller\<lparr>delay := 10\<rparr>) ''/me'' ''GET'' None NoTarget))
     = [[''1005'']]"
    by (simp add: server_CallApi_sent timestamp_header f)
  from a b c d show ?thesis by blast
qed

section \<open>The order in which CallAPI adds its headers\<close>

lemma fold_Header_Add:
  "fold (\<lambda>(h, v). Header_Add h v) hs h0 k =
     h0 k @ map snd (filter (\<lambda>p. CanonicalMIMEHeaderKey (fst p) = k) hs)"
  by (induction hs arbitrary: h0) (auto simp: Header_Add_def)

lemma filter_unique_key:
  "distinct (map f xs) \<Longrightarrow> p \<in> set xs \<Longrightarrow> filter (\<lambda>q. f q = f p) xs = [p]"
proof (induction xs)
  case Nil
  then show ?case by simp
next
  case (Cons x xs)
  show ?case
  proof (cases "x = p")
    case True
    with Cons.prems(1) have "f p \<notin> f ` set xs" by simp
    then have "\<forall>q\<in>set xs. f q \<noteq> f p" by (metis imageI)
    then have "filter (\<lambda>q. f q = f p) xs = []" by (simp add: filter_empty_conv)
    with True show ?thesis by simp
  next
    case False
    with Cons.prems have "p \<in> set xs" and "f x \<noteq> f p" by auto
    with Cons.IH Cons.prems(1) show ?thesis by simp
  qed
qed

lemma filter_by_key_same:
  assumes "distinct (map f xs)" and "distinct (map f ys)" and "set xs = set ys"
  shows "filter (\<lambda>q. f q = k) xs = filter (\<lambda>q. f q = k) ys"
proof (cases "\<exists>p\<in>set xs. f p = k")
  case True
  then obtain p where p: "p \<in> set xs" "f p = k" by blast
  with assms(3) have p': "p \<in> set ys" by simp
  from filter_unique_key [OF assms(1) p(1)] filter_unique_key [OF assms(2) p']
  show ?thesis by (simp add: p(2))
next
  case False
  with assms(3) have "filter (\<lambda>q. f q = k) xs = []" and "filter (\<lambda>q. f q = k) ys = []"
    by (auto simp: filter_empty_conv)
  then show ?thesis by simp
qed

lemma CallAPI_headers_keys:
  "distinct (map (\<lambda>p. CanonicalMIMEHeaderKey (fst p)) (CallAPI_headers caller timestamp s))"
  by (simp add: CallAPI_headers_def canonical_keys)

text \<open>
  \<^verbatim>\<open>CallAPI\<close> adds its five headers while ranging over a map: in whatever order the
  five pairs come, the header map is the same.
\<close>

lemma CallAPI_headers_any_order:
  assumes "distinct hs" and "set hs = set (CallAPI_headers caller timestamp s)"
  shows "fold (\<lambda>(h, v). Header_Add h v) hs no_header =
         fold (\<lambda>(h, v). Header_Add h v) (CallAPI_headers caller timestamp s) no_header"
proof (rule ext)
  fix k
  let ?f = "\<lambda>p :: string \<times> string. CanonicalMIMEHeaderKey (fst p)"
  let ?H = "CallAPI_headers caller timestamp s"
  have "inj_on ?f (set ?H)"
    using CallAPI_headers_keys [of caller timestamp s] by (simp add: distinct_map)
  with assms have "distinct (map ?f hs)"
    by (simp add: distinct_map)
  from filter_by_key_same [OF this CallAPI_headers_keys assms(2)]
  show "fold (\<lambda>(h, v). Header_Add h v) hs no_header k =
        fold (\<lambda>(h, v). Header_Add h v) ?H no_header k"
    by (simp add: fold_Header_Add)
qed

end
